theory Spec2Isabelle
  imports Complex_Main "HOL-Library.Word"
begin

section \<open>The C and C++ library functions the program calls\<close>

subsection \<open>Characters, decimal numerals, exceptions\<close>

text \<open>
  \<^verbatim>\<open>isspace\<close> and \<open>isdigit\<close> in the "C" locale: space, tab, line feed, vertical tab,
  form feed and carriage return are white space.
\<close>

definition isspace :: "char \<Rightarrow> bool" where
  "isspace c = (of_char c \<in> {32::nat, 9, 10, 11, 12, 13})"

definition isdigit :: "char \<Rightarrow> bool" where
  "isdigit c = (48 \<le> (of_char c :: nat) \<and> (of_char c :: nat) \<le> 57)"

definition digits_val :: "string \<Rightarrow> int" where
  "digits_val ds = foldl (\<lambda>acc c. 10 * acc + (int (of_char c) - 48)) 0 ds"

definition digit_char :: "nat \<Rightarrow> char" where
  "digit_char d = char_of (48 + d)"

function dec :: "nat \<Rightarrow> string" where
  "dec n = (if n < 10 then [digit_char n] else dec (n div 10) @ [digit_char (n mod 10)])"
  by pat_completeness auto
termination
  by (relation "measure id") auto

declare dec.simps [simp del]

text \<open>\<^verbatim>\<open>std::to_string(int)\<close>: the decimal numeral, with a minus sign when negative.\<close>

definition to_string :: "int \<Rightarrow> string" where
  "to_string i = (if i < 0 then CHR ''-'' # dec (nat (- i)) else dec (nat i))"

text \<open>
  The exceptions that occur: the two that \<^verbatim>\<open>std::stoi\<close> throws, the
  \<^verbatim>\<open>std::runtime_error\<close> of the wrapper, and any other \<^verbatim>\<open>std::exception\<close> a library
  call may throw. Each carries its \<^verbatim>\<open>what()\<close> string.
\<close>

datatype exn =
    Invalid_argument string
  | Out_of_range string
  | Runtime_error string
  | Std_exception string

fun what :: "exn \<Rightarrow> string" where
  "what (Invalid_argument m) = m"
| "what (Out_of_range m) = m"
| "what (Runtime_error m) = m"
| "what (Std_exception m) = m"

text \<open>
  \<^verbatim>\<open>std::stoi(str)\<close> with base 10: \<^verbatim>\<open>strtol\<close> skips leading white space, takes an
  optional sign and the longest run of digits, and ignores what follows. No digit at all
  throws \<^verbatim>\<open>std::invalid_argument\<close>; a value outside \<^verbatim>\<open>int\<close> throws
  \<^verbatim>\<open>std::out_of_range\<close>.
\<close>

definition stoi :: "string \<Rightarrow> exn + int" where
  "stoi str =
     (let s = dropWhile isspace str;
          neg = (s \<noteq> [] \<and> hd s = CHR ''-'');
          s1 = (if s \<noteq> [] \<and> (hd s = CHR ''-'' \<or> hd s = CHR ''+'') then tl s else s);
          ds = takeWhile isdigit s1;
          v = (if neg then - digits_val ds else digits_val ds)
      in if ds = [] then Inl (Invalid_argument ''stoi'')
         else if v < - (2 ^ 31) \<or> 2 ^ 31 - 1 < v then Inl (Out_of_range ''stoi'')
         else Inr v)"

subsection \<open>IEEE 754 binary64\<close>

text \<open>
  A \<^verbatim>\<open>double\<close> is a NaN, an infinity with its sign (\<open>True\<close> is negative), the negative
  zero, or a finite number given by its exact rational value (\<open>Fin 0\<close> is the positive
  zero). Arithmetic computes the exact rational result and rounds it to the nearest
  binary64 number, ties to even, as the default rounding mode does.
\<close>

datatype double = NaN | Infinity bool | NegZero | Fin rat

function bitlen :: "int \<Rightarrow> int" where
  "bitlen a = (if 0 < a then 1 + bitlen (a div 2) else 0)"
  by pat_completeness auto
termination
  by (relation "measure nat") auto

declare bitlen.simps [simp del]

text \<open>For \<open>q > 0\<close>, \<open>ilog2 q\<close> is the exponent \<open>e\<close> with \<open>2\<^sup>e \<le> q < 2\<^sup>e\<^sup>+\<^sup>1\<close>.\<close>

definition ilog2 :: "rat \<Rightarrow> int" where
  "ilog2 q = (let (a, b) = quotient_of q; k = bitlen a - bitlen b
              in if 2 powi k \<le> q then k else k - 1)"

definition round_half_even :: "rat \<Rightarrow> int" where
  "round_half_even m =
     (let f = \<lfloor>m\<rfloor>; d = m - of_int f
      in if d < 1 / 2 then f else if 1 / 2 < d then f + 1
         else if even f then f else f + 1)"

text \<open>
  Rounding a magnitude: 53 significant bits, the exponent not below that of the
  subnormal numbers. At or beyond \<open>2\<^sup>1\<^sup>0\<^sup>2\<^sup>4\<close> the result overflows.
\<close>

definition round_mag :: "rat \<Rightarrow> rat" where
  "round_mag q =
     (let e = max (ilog2 q) (- 1022); ulp = 2 powi (e - 52)
      in of_int (round_half_even (q / ulp)) * ulp)"

definition fround :: "rat \<Rightarrow> double" where
  "fround q =
     (let r = round_mag \<bar>q\<bar>
      in if 2 ^ 1024 \<le> r then Infinity (q < 0)
         else if q < 0 then (if r = 0 then NegZero else Fin (- r))
         else Fin r)"

fun sign_bit :: "double \<Rightarrow> bool" where
  "sign_bit NaN = False"
| "sign_bit (Infinity s) = s"
| "sign_bit NegZero = True"
| "sign_bit (Fin q) = (q < 0)"

fun fval :: "double \<Rightarrow> rat" where
  "fval (Fin q) = q"
| "fval _ = 0"

definition zero_of :: "bool \<Rightarrow> double" where
  "zero_of s = (if s then NegZero else Fin 0)"

fun fdiv :: "double \<Rightarrow> double \<Rightarrow> double" where
  "fdiv NaN y = NaN"
| "fdiv x NaN = NaN"
| "fdiv (Infinity s) (Infinity t) = NaN"
| "fdiv (Infinity s) y = Infinity (s \<noteq> sign_bit y)"
| "fdiv x (Infinity t) = zero_of (sign_bit x \<noteq> t)"
| "fdiv x y =
     (if fval y = 0 then (if fval x = 0 then NaN else Infinity (sign_bit x \<noteq> sign_bit y))
      else if fval x = 0 then zero_of (sign_bit x \<noteq> sign_bit y)
      else fround (fval x / fval y))"

fun fmul :: "double \<Rightarrow> double \<Rightarrow> double" where
  "fmul NaN y = NaN"
| "fmul x NaN = NaN"
| "fmul (Infinity s) (Infinity t) = Infinity (s \<noteq> t)"
| "fmul (Infinity s) y = (if fval y = 0 then NaN else Infinity (s \<noteq> sign_bit y))"
| "fmul x (Infinity t) = (if fval x = 0 then NaN else Infinity (sign_bit x \<noteq> t))"
| "fmul x y =
     (if fval x = 0 \<or> fval y = 0 then zero_of (sign_bit x \<noteq> sign_bit y)
      else fround (fval x * fval y))"

fun fadd :: "double \<Rightarrow> double \<Rightarrow> double" where
  "fadd NaN y = NaN"
| "fadd x NaN = NaN"
| "fadd (Infinity s) (Infinity t) = (if s = t then Infinity s else NaN)"
| "fadd (Infinity s) y = Infinity s"
| "fadd x (Infinity t) = Infinity t"
| "fadd x y =
     (let r = fval x + fval y
      in if r = 0 then zero_of (sign_bit x \<and> sign_bit y) else fround r)"

fun fneg :: "double \<Rightarrow> double" where
  "fneg NaN = NaN"
| "fneg (Infinity s) = Infinity (\<not> s)"
| "fneg NegZero = Fin 0"
| "fneg (Fin q) = (if q = 0 then NegZero else Fin (- q))"

definition fsub :: "double \<Rightarrow> double \<Rightarrow> double" where
  "fsub x y = fadd x (fneg y)"

fun fabs :: "double \<Rightarrow> double" where
  "fabs NaN = NaN"
| "fabs (Infinity s) = Infinity False"
| "fabs NegZero = Fin 0"
| "fabs (Fin q) = Fin \<bar>q\<bar>"

definition is_finite :: "double \<Rightarrow> bool" where
  "is_finite x = (case x of Fin q \<Rightarrow> True | NegZero \<Rightarrow> True | _ \<Rightarrow> False)"

definition is_zero :: "double \<Rightarrow> bool" where
  "is_zero x = (x = Fin 0 \<or> x = NegZero)"

text \<open>The comparisons of C++: every comparison with a NaN is false.\<close>

fun flt :: "double \<Rightarrow> double \<Rightarrow> bool" where
  "flt NaN y = False"
| "flt x NaN = False"
| "flt (Infinity s) (Infinity t) = (s \<and> \<not> t)"
| "flt (Infinity s) y = s"
| "flt x (Infinity t) = (\<not> t)"
| "flt x y = (fval x < fval y)"

fun fle :: "double \<Rightarrow> double \<Rightarrow> bool" where
  "fle NaN y = False"
| "fle x NaN = False"
| "fle (Infinity s) (Infinity t) = (s \<or> \<not> t)"
| "fle (Infinity s) y = s"
| "fle x (Infinity t) = (\<not> t)"
| "fle x y = (fval x \<le> fval y)"

definition fgt :: "double \<Rightarrow> double \<Rightarrow> bool" where
  "fgt x y = flt y x"


section \<open>Processes, streams and the numerical libraries\<close>

subsection \<open>Streams\<close>

text \<open>
  What is written to a stream is kept as the sequence of the inserted operands: string
  literals, doubles and ints. How \<^verbatim>\<open>operator<<\<close> prints a double is not modelled.
\<close>

datatype item = Text string | Num double | Int_item int

definition endl :: item where
  "endl = Text [CHR 0x0A]"

text \<open>
  The state of the process: the unread standard input and the fail bit of \<^verbatim>\<open>std::cin\<close>,
  what was written to \<^verbatim>\<open>std::cout\<close>, \<^verbatim>\<open>std::cerr\<close> and the file \<^verbatim>\<open>results.txt\<close>, and how
  often the random generator and the clock were used.
\<close>

record process =
  cin :: string
  cin_fail :: bool
  cout :: "item list"
  cerr :: "item list"
  outfile :: "item list"
  rand_calls :: nat
  clock_reads :: nat

definition start :: "string \<Rightarrow> process" where
  "start stdin = \<lparr>cin = stdin, cin_fail = False, cout = [], cerr = [], outfile = [],
                  rand_calls = 0, clock_reads = 0\<rparr>"

definition to_cout :: "item list \<Rightarrow> process \<Rightarrow> process" where
  "to_cout xs p = p\<lparr>cout := cout p @ xs\<rparr>"

definition to_cerr :: "item list \<Rightarrow> process \<Rightarrow> process" where
  "to_cerr xs p = p\<lparr>cerr := cerr p @ xs\<rparr>"

definition to_outfile :: "item list \<Rightarrow> process \<Rightarrow> process" where
  "to_outfile xs p = p\<lparr>outfile := outfile p @ xs\<rparr>"

text \<open>
  \<^verbatim>\<open>std::cin >> c\<close> for a \<^verbatim>\<open>char\<close>: skips white space and takes one character. When the
  stream has failed before or the input is exhausted, the extraction fails and the
  variable keeps what it held (result \<open>None\<close>).
\<close>

definition extract_char :: "process \<Rightarrow> char option \<times> process" where
  "extract_char p =
     (if cin_fail p then (None, p)
      else case dropWhile isspace (cin p) of
             [] \<Rightarrow> (None, p\<lparr>cin := [], cin_fail := True\<rparr>)
           | c # rest \<Rightarrow> (Some c, p\<lparr>cin := rest\<rparr>))"

text \<open>
  \<^verbatim>\<open>std::cin >> n\<close> for an \<^verbatim>\<open>int\<close>: skips white space, then reads an optional sign and
  digits. Exhausted input leaves the variable as it was (\<open>None\<close>); no digit stores 0 and
  a value out of range stores the nearest bound of \<^verbatim>\<open>int\<close>, both setting the fail bit.
\<close>

definition extract_int :: "process \<Rightarrow> int option \<times> process" where
  "extract_int p =
     (if cin_fail p then (None, p)
      else
        let s = dropWhile isspace (cin p);
            neg = (s \<noteq> [] \<and> hd s = CHR ''-'');
            s1 = (if s \<noteq> [] \<and> (hd s = CHR ''-'' \<or> hd s = CHR ''+'') then tl s else s);
            ds = takeWhile isdigit s1;
            rest = dropWhile isdigit s1;
            v = (if neg then - digits_val ds else digits_val ds)
        in if s = [] then (None, p\<lparr>cin := [], cin_fail := True\<rparr>)
           else if ds = [] then (Some 0, p\<lparr>cin := s1, cin_fail := True\<rparr>)
           else if 2 ^ 31 - 1 < v then (Some (2 ^ 31 - 1), p\<lparr>cin := rest, cin_fail := True\<rparr>)
           else if v < - (2 ^ 31) then (Some (- (2 ^ 31)), p\<lparr>cin := rest, cin_fail := True\<rparr>)
           else (Some v, p\<lparr>cin := rest\<rparr>))"

subsection \<open>How a run ends\<close>

text \<open>
  \<open>Exited c\<close>: \<^verbatim>\<open>main\<close> returned \<open>c\<close>. \<open>Terminated e\<close>: the exception \<open>e\<close> left \<^verbatim>\<open>main\<close>
  uncaught, \<^verbatim>\<open>std::terminate\<close> aborts the process. \<open>Undefined\<close>: the program read an
  uninitialised variable or broke a precondition of the Eigen library (an
  \<^verbatim>\<open>eigen_assert\<close>, which aborts, or under \<^verbatim>\<open>NDEBUG\<close> undefined behaviour).
\<close>

datatype status = Exited int | Terminated exn | Undefined

subsection \<open>Matrices and the external numerical routines\<close>

text \<open>
  An \<^verbatim>\<open>Eigen::MatrixXd\<close> has its dimensions and its coefficients in column-major order;
  an \<^verbatim>\<open>Eigen::VectorXd\<close> is a matrix with one column.
\<close>

record matrix =
  rows :: nat
  cols :: nat
  coeffs :: "double list"

type_synonym cplx = "double \<times> double"

text \<open>
  The numerical routines are not part of the program; they are parameters of the model.
  Each gives the coefficients it computes by their index.
  \<^item> \<open>random_coeff k j\<close>: coefficient \<open>j\<close> of the \<open>k\<close>-th matrix that
    \<^verbatim>\<open>Eigen::MatrixXd::Random\<close> produces;
  \<^item> \<open>uninit\<close>: the indeterminate contents of freshly allocated coefficients;
  \<^item> \<open>singular_value M i\<close>: the \<open>i\<close>-th singular value that \<^verbatim>\<open>Eigen::JacobiSVD\<close> reports
    for \<open>M\<close>;
  \<^item> \<open>fortran_routine n a\<close>: the Fortran subroutine \<^verbatim>\<open>eigen_decomposition\<close> called with
    dimension \<open>n\<close> and a buffer holding \<open>a\<close>: what it leaves in the buffers \<^verbatim>\<open>A\<close>, \<^verbatim>\<open>W\<close>
    and \<^verbatim>\<open>V\<close>, and the status \<^verbatim>\<open>info\<close>;
  \<^item> \<open>eigen_solver M\<close>: the complex eigenvalues and eigenvectors of
    \<^verbatim>\<open>Eigen::EigenSolver\<close>, or the message of an exception it throws;
  \<^item> \<open>product_coeff\<close>, \<open>inverse_coeff\<close>, \<open>frobenius_norm\<close>: Eigen's matrix product,
    \<^verbatim>\<open>inverse()\<close> and \<^verbatim>\<open>norm()\<close>;
  \<^item> \<open>now k\<close>: the \<open>k\<close>-th reading of \<^verbatim>\<open>high_resolution_clock\<close> in ticks, and \<open>seconds\<close>
    the conversion of a tick count to \<^verbatim>\<open>duration<double>\<close>.
\<close>

record env =
  random_coeff :: "nat \<Rightarrow> nat \<Rightarrow> double"
  uninit :: "nat \<Rightarrow> double"
  singular_value :: "matrix \<Rightarrow> nat \<Rightarrow> double"
  fortran_routine ::
    "int \<Rightarrow> double list \<Rightarrow> (nat \<Rightarrow> double) \<times> (nat \<Rightarrow> double) \<times> (nat \<Rightarrow> double) \<times> 32 word"
  eigen_solver :: "matrix \<Rightarrow> string + (nat \<Rightarrow> cplx) \<times> (nat \<Rightarrow> cplx)"
  product_coeff :: "matrix \<Rightarrow> matrix \<Rightarrow> nat \<Rightarrow> double"
  inverse_coeff :: "matrix \<Rightarrow> nat \<Rightarrow> double"
  frobenius_norm :: "matrix \<Rightarrow> double"
  now :: "nat \<Rightarrow> int"
  seconds :: "int \<Rightarrow> double"

definition fresh :: "env \<Rightarrow> nat \<Rightarrow> nat \<Rightarrow> matrix" where
  "fresh env r c = \<lparr>rows = r, cols = c, coeffs = map (uninit env) [0..<r * c]\<rparr>"

definition random_matrix :: "env \<Rightarrow> nat \<Rightarrow> nat \<Rightarrow> matrix" where
  "random_matrix env k n = \<lparr>rows = n, cols = n, coeffs = map (random_coeff env k) [0..<n * n]\<rparr>"

text \<open>\<^verbatim>\<open>resize\<close> keeps the coefficients when their number does not change.\<close>

definition resize :: "env \<Rightarrow> nat \<Rightarrow> nat \<Rightarrow> matrix \<Rightarrow> matrix" where
  "resize env r c m =
     (if rows m * cols m = r * c then m\<lparr>rows := r, cols := c\<rparr> else fresh env r c)"

text \<open>The Eigen operations of the program, each with the dimension check it asserts.\<close>

definition diag_product :: "matrix \<Rightarrow> matrix \<Rightarrow> status + matrix" where
  "diag_product V W =
     (if cols V = rows W * cols W
      then Inr \<lparr>rows = rows V, cols = cols V,
                coeffs = map (\<lambda>k. fmul (coeffs V ! k) (coeffs W ! (k div rows V)))
                           [0..<rows V * cols V]\<rparr>
      else Inl Undefined)"

definition inverse_m :: "env \<Rightarrow> matrix \<Rightarrow> status + matrix" where
  "inverse_m env V =
     (if rows V = cols V
      then Inr \<lparr>rows = rows V, cols = cols V,
                coeffs = map (inverse_coeff env V) [0..<rows V * cols V]\<rparr>
      else Inl Undefined)"

definition product :: "env \<Rightarrow> matrix \<Rightarrow> matrix \<Rightarrow> status + matrix" where
  "product env X Y =
     (if cols X = rows Y
      then Inr \<lparr>rows = rows X, cols = cols Y,
                coeffs = map (product_coeff env X Y) [0..<rows X * cols Y]\<rparr>
      else Inl Undefined)"

definition difference :: "matrix \<Rightarrow> matrix \<Rightarrow> status + matrix" where
  "difference X Y =
     (if rows X = rows Y \<and> cols X = cols Y
      then Inr \<lparr>rows = rows X, cols = cols X, coeffs = map2 fsub (coeffs X) (coeffs Y)\<rparr>
      else Inl Undefined)"

definition cwiseAbs :: "matrix \<Rightarrow> matrix" where
  "cwiseAbs M = M\<lparr>coeffs := map fabs (coeffs M)\<rparr>"

text \<open>
  \<^verbatim>\<open>maxCoeff\<close> needs at least one coefficient; it folds \<^verbatim>\<open>std::max\<close>, that is
  \<^verbatim>\<open>(a < b) ? b : a\<close>, over them.
\<close>

definition maxCoeff :: "matrix \<Rightarrow> status + double" where
  "maxCoeff M =
     (if rows M = 0 \<or> cols M = 0 then Inl Undefined
      else case coeffs M of
             [] \<Rightarrow> Inl Undefined
           | x # xs \<Rightarrow> Inr (foldl (\<lambda>a b. if flt a b then b else a) x xs))"


section \<open>The program\<close>

subsection \<open>\<^verbatim>\<open>eigen_interface.cpp\<close>: the wrapper of the Fortran routine\<close>

text \<open>
  The wrapper takes its three matrices by reference, so the model passes references into
  a store of matrix objects; a reference is an index of the store. The local \<^verbatim>\<open>A_copy\<close>
  is a new object at the end of the store, initialised from \<^verbatim>\<open>A\<close>, and is gone on return.
  \<^verbatim>\<open>W\<close> and \<^verbatim>\<open>V\<close> are resized; then the Fortran routine is called with the buffers of
  \<^verbatim>\<open>A_copy\<close>, \<^verbatim>\<open>W\<close> and \<^verbatim>\<open>V\<close> and writes into each of them. A nonzero \<^verbatim>\<open>info\<close> throws
  \<^verbatim>\<open>std::runtime_error\<close>. The number of rows is taken to fit the \<^verbatim>\<open>int\<close> variable \<^verbatim>\<open>n\<close>.
\<close>

type_synonym store = "matrix list"

definition write_buffer :: "(nat \<Rightarrow> double) \<Rightarrow> matrix \<Rightarrow> matrix" where
  "write_buffer f M = M\<lparr>coeffs := map f [0..<length (coeffs M)]\<rparr>"

definition eigen_decomposition ::
    "env \<Rightarrow> nat \<Rightarrow> nat \<Rightarrow> nat \<Rightarrow> store \<Rightarrow> (exn + unit) \<times> store" where
  "eigen_decomposition env A W V s =
     (let n = rows (s ! A);
          A_copy = length s;
          s1 = s @ [s ! A];
          s2 = s1[W := resize env n 1 (s1 ! W)];
          s3 = s2[V := resize env n n (s2 ! V)];
          (fA, fW, fV, info) = fortran_routine env (int n) (coeffs (s3 ! A_copy));
          s4 = s3[A_copy := write_buffer fA (s3 ! A_copy)];
          s5 = s4[W := write_buffer fW (s4 ! W)];
          s6 = s5[V := write_buffer fV (s5 ! V)];
          s7 = take (length s) s6
      in if info \<noteq> 0
         then (Inl (Runtime_error (''LAPACK eigen_decomposition failed with info code: ''
                                    @ to_string (sint info))), s7)
         else (Inr (), s7))"

subsection \<open>\<^verbatim>\<open>main.cpp\<close>: validation and condition number\<close>

definition check_decomposition ::
    "env \<Rightarrow> matrix \<Rightarrow> matrix \<Rightarrow> matrix \<Rightarrow> string \<Rightarrow> process \<Rightarrow> status + double \<times> process" where
  "check_decomposition env A W V method p =
     (case diag_product V W of Inl e \<Rightarrow> Inl e | Inr VD \<Rightarrow>
      case inverse_m env V of Inl e \<Rightarrow> Inl e | Inr V_inverse \<Rightarrow>
      case product env VD V_inverse of Inl e \<Rightarrow> Inl e | Inr A_reconstructed \<Rightarrow>
      case difference A A_reconstructed of Inl e \<Rightarrow> Inl e | Inr D \<Rightarrow>
        let relative_error = fdiv (frobenius_norm env D) (frobenius_norm env A);
            line = [Text method, Text '' relative reconstruction error: '',
                    Num relative_error, endl]
        in Inr (relative_error, to_outfile line (to_cout line p)))"

text \<open>
  \<^verbatim>\<open>svd.singularValues()(0) / svd.singularValues().tail(1)(0)\<close>: the first singular value
  divided by the last one; there are \<open>min rows cols\<close> of them, and indexing an empty
  vector breaks Eigen's precondition.
\<close>

definition compute_condition_number :: "env \<Rightarrow> matrix \<Rightarrow> status + double" where
  "compute_condition_number env A =
     (let k = min (rows A) (cols A)
      in if k = 0 then Inl Undefined
         else Inr (fdiv (singular_value env A 0) (singular_value env A (k - 1))))"

subsection \<open>\<^verbatim>\<open>main\<close>, lines 100 to 135: the matrix and the regeneration loop\<close>

definition condition_number_threshold :: double where
  "condition_number_threshold = Fin 1000000"

text \<open>
  The \<^verbatim>\<open>while\<close> loop of lines 122 to 134. \<open>regenerate\<close> is \<open>None\<close> while the variable is
  uninitialised. The loop need not end: the result \<open>None\<close> is a run that stays in it.
\<close>

partial_function (option) regenerate_loop ::
    "env \<Rightarrow> nat \<Rightarrow> matrix \<Rightarrow> char option \<Rightarrow> process
       \<Rightarrow> (status \<times> process + matrix \<times> process) option" where
  "regenerate_loop env n A regenerate p =
     (case regenerate of
        None \<Rightarrow> Some (Inl (Undefined, p))
      | Some c \<Rightarrow>
          if c = CHR ''y'' \<or> c = CHR ''Y'' then
            (let A' = random_matrix env (rand_calls p) n;
                 p1 = p\<lparr>rand_calls := rand_calls p + 1\<rparr>
             in case compute_condition_number env A' of
                  Inl e \<Rightarrow> Some (Inl (e, p1))
                | Inr cond_number \<Rightarrow>
                    let line = [Text ''Condition number of the new matrix: '',
                                Num cond_number, endl];
                        p2 = to_outfile line (to_cout line p1)
                    in if fle cond_number condition_number_threshold then Some (Inr (A', p2))
                       else
                         let (r, p3) = extract_char
                                         (to_cout [Text ''Regenerate again? (y/n): ''] p2)
                         in regenerate_loop env n A'
                              (case r of None \<Rightarrow> regenerate | Some c' \<Rightarrow> Some c') p3)
          else Some (Inr (A, p)))"

declare regenerate_loop.simps [code]

text \<open>
  Lines 100 to 135: the size is read, the matrix generated and its condition number
  printed; when it exceeds the threshold the operator is asked, and the loop runs.
  A negative size breaks the precondition of \<^verbatim>\<open>Random\<close>.
\<close>

definition setup_matrix ::
    "env \<Rightarrow> process \<Rightarrow> (status \<times> process + int \<times> matrix \<times> process) option" where
  "setup_matrix env p0 =
     (let (r, p2) = extract_int (to_cout [Text ''Enter the size of the matrix: ''] p0)
      in case r of
           None \<Rightarrow> Some (Inl (Undefined, p2))
         | Some size_n \<Rightarrow>
             if size_n < 0 then Some (Inl (Undefined, p2))
             else
               let A = random_matrix env (rand_calls p2) (nat size_n);
                   p3 = p2\<lparr>rand_calls := rand_calls p2 + 1\<rparr>
               in case compute_condition_number env A of
                    Inl e \<Rightarrow> Some (Inl (e, p3))
                  | Inr cond_number \<Rightarrow>
                      let line = [Text ''Condition number of the matrix: '', Num cond_number, endl];
                          p4 = to_outfile line (to_cout line p3)
                      in if fgt cond_number condition_number_threshold
                         then
                           let (regenerate, p6) = extract_char
                                  (to_cout [Text (''Condition number is poor. Regenerate matrix for better ''
                                                  @ ''condition number? (y/n): '')] p4)
                           in map_option (map_sum id (\<lambda>(A', p'). (size_n, A', p')))
                                (regenerate_loop env (nat size_n) A regenerate p6)
                         else Some (Inr (size_n, A, p4)))"

subsection \<open>\<^verbatim>\<open>main\<close>, lines 137 to 271: the two decompositions and the report\<close>

text \<open>
  Lines 137 to 164. \<^verbatim>\<open>A\<close>, \<^verbatim>\<open>W_fortran\<close> and \<^verbatim>\<open>V_fortran\<close> are the objects 0, 1 and 2 of
  the store. The exception of the wrapper is caught: a message on \<^verbatim>\<open>std::cerr\<close> and
  \<^verbatim>\<open>return 1\<close>.
\<close>

definition native_backend ::
    "env \<Rightarrow> int \<Rightarrow> matrix \<Rightarrow> process
       \<Rightarrow> status \<times> process + matrix \<times> matrix \<times> matrix \<times> double \<times> process" where
  "native_backend env size_n A p =
     (let s = [A, fresh env (nat size_n) 1, fresh env (nat size_n) (nat size_n)];
          start = now env (clock_reads p);
          p1 = p\<lparr>clock_reads := clock_reads p + 1\<rparr>
      in case eigen_decomposition env 0 1 2 s of
           (Inl e, s') \<Rightarrow>
             Inl (Exited 1,
                  to_cerr [Text ''Error in Fortran LAPACK eigenvalue decomposition: '',
                           Text (what e), endl] p1)
         | (Inr u, s') \<Rightarrow>
             let end = now env (clock_reads p1);
                 p2 = p1\<lparr>clock_reads := clock_reads p1 + 1\<rparr>;
                 duration_fortran = seconds env (end - start);
                 line = [Text ''Fortran LAPACK Duration: '', Num duration_fortran,
                         Text '' seconds'', endl]
             in Inr (s' ! 0, s' ! 1, s' ! 2, duration_fortran,
                     to_outfile line (to_cout line p2)))"

text \<open>
  Lines 169 to 214: \<^verbatim>\<open>Eigen::EigenSolver\<close> in the two branches of the mode flag. Its
  matrix must be square. \<^verbatim>\<open>real()\<close> takes the real parts.
\<close>

definition library_backend ::
    "env \<Rightarrow> bool \<Rightarrow> matrix \<Rightarrow> process
       \<Rightarrow> status \<times> process + matrix \<times> matrix \<times> double \<times> process" where
  "library_backend env use_lapack_in_eigen A p =
     (if use_lapack_in_eigen then
        (let start = now env (clock_reads p);
             p1 = p\<lparr>clock_reads := clock_reads p + 1\<rparr>
         in if rows A \<noteq> cols A then Inl (Undefined, p1)
            else case eigen_solver env A of
                Inl m \<Rightarrow>
                  Inl (Exited 1,
                       to_cerr [Text ''Error in Eigen library eigenvalue decomposition: '',
                                Text m, endl] p1)
              | Inr (eigenvalues, eigenvectors) \<Rightarrow>
                  let W_eigen = \<lparr>rows = rows A, cols = 1,
                                 coeffs = map (\<lambda>i. fst (eigenvalues i)) [0..<rows A]\<rparr>;
                      V_eigen = \<lparr>rows = rows A, cols = rows A,
                                 coeffs = map (\<lambda>i. fst (eigenvectors i)) [0..<rows A * rows A]\<rparr>;
                      end = now env (clock_reads p1);
                      p2 = p1\<lparr>clock_reads := clock_reads p1 + 1\<rparr>;
                      duration_eigen = seconds env (end - start);
                      line = [Text ''Eigen Library (with LAPACK) Duration: '', Num duration_eigen,
                              Text '' seconds'', endl]
                  in Inr (W_eigen, V_eigen, duration_eigen, to_outfile line (to_cout line p2)))
      else
        (let start = now env (clock_reads p);
             p1 = p\<lparr>clock_reads := clock_reads p + 1\<rparr>
         in if rows A \<noteq> cols A then Inl (Undefined, p1)
            else case eigen_solver env A of
                Inl m \<Rightarrow>
                  Inl (Exited 1,
                       to_cerr [Text ''Error in Eigen library eigenvalue decomposition: '',
                                Text m, endl] p1)
              | Inr (eigenvalues, eigenvectors) \<Rightarrow>
                  let W_eigen = \<lparr>rows = rows A, cols = 1,
                                 coeffs = map (\<lambda>i. fst (eigenvalues i)) [0..<rows A]\<rparr>;
                      V_eigen = \<lparr>rows = rows A, cols = rows A,
                                 coeffs = map (\<lambda>i. fst (eigenvectors i)) [0..<rows A * rows A]\<rparr>;
                      end = now env (clock_reads p1);
                      p2 = p1\<lparr>clock_reads := clock_reads p1 + 1\<rparr>;
                      duration_eigen = seconds env (end - start);
                      line = [Text ''Eigen Library (without LAPACK) Duration: '', Num duration_eigen,
                              Text '' seconds'', endl]
                  in Inr (W_eigen, V_eigen, duration_eigen, to_outfile line (to_cout line p2))))"

text \<open>Lines 218 and 219: \<^verbatim>\<open>(X - Y).cwiseAbs().maxCoeff()\<close>.\<close>

definition max_abs_diff :: "matrix \<Rightarrow> matrix \<Rightarrow> status + double" where
  "max_abs_diff X Y =
     (case difference X Y of Inl e \<Rightarrow> Inl e | Inr D \<Rightarrow> maxCoeff (cwiseAbs D))"

definition nl :: string where
  "nl = [CHR 0x0A]"

text \<open>Lines 222 to 267: the summary, written to \<^verbatim>\<open>std::cout\<close> and to the file alike.\<close>

definition summary ::
    "bool \<Rightarrow> int \<Rightarrow> double \<Rightarrow> double \<Rightarrow> double \<Rightarrow> double \<Rightarrow> double \<Rightarrow> double \<Rightarrow> item list" where
  "summary use_lapack_in_eigen size_n duration_fortran duration_eigen max_diff_values
       max_diff_vectors relative_error_fortran relative_error_eigen =
     [Text (nl @ ''Summary:'' @ nl),
      Text ''Chosen method: '',
      Text (if use_lapack_in_eigen then ''Eigen with LAPACK'' else ''Eigen without LAPACK''),
      Text nl,
      Text ''Matrix size: '', Int_item size_n, Text nl,
      Text ''Fortran LAPACK Duration: '', Num duration_fortran, Text ('' seconds'' @ nl),
      Text ''Eigen Library Duration: '', Num duration_eigen, Text ('' seconds'' @ nl),
      Text ''Maximum difference between Fortran LAPACK and Eigen eigenvalues: '',
      Num max_diff_values, Text nl,
      Text ''Maximum difference between Fortran LAPACK and Eigen eigenvectors: '',
      Num max_diff_vectors, Text nl,
      Text ''Fortran LAPACK relative reconstruction error: '',
      Num relative_error_fortran, Text nl,
      Text ''Eigen Library relative reconstruction error: '',
      Num relative_error_eigen, Text nl,
      Text (if flt duration_fortran duration_eigen then ''Fortran LAPACK'' else ''Eigen Library''),
      Text '' was faster by '',
      Num (fabs (fsub duration_eigen duration_fortran)), Text ('' seconds'' @ nl)]"

definition compare_backends ::
    "env \<Rightarrow> bool \<Rightarrow> int \<Rightarrow> matrix \<Rightarrow> process \<Rightarrow> status \<times> process" where
  "compare_backends env use_lapack_in_eigen size_n A0 p =
     (case native_backend env size_n A0 p of Inl r \<Rightarrow> r
      | Inr (A, W_fortran, V_fortran, duration_fortran, p1) \<Rightarrow>
      case check_decomposition env A W_fortran V_fortran ''Fortran LAPACK'' p1 of
        Inl e \<Rightarrow> (e, p1)
      | Inr (relative_error_fortran, p2) \<Rightarrow>
      case library_backend env use_lapack_in_eigen A p2 of Inl r \<Rightarrow> r
      | Inr (W_eigen, V_eigen, duration_eigen, p3) \<Rightarrow>
      case check_decomposition env A W_eigen V_eigen ''Eigen Library'' p3 of
        Inl e \<Rightarrow> (e, p3)
      | Inr (relative_error_eigen, p4) \<Rightarrow>
      case max_abs_diff W_fortran W_eigen of Inl e \<Rightarrow> (e, p4)
      | Inr max_diff_values \<Rightarrow>
      case max_abs_diff V_fortran V_eigen of Inl e \<Rightarrow> (e, p4)
      | Inr max_diff_vectors \<Rightarrow>
        let report = summary use_lapack_in_eigen size_n duration_fortran duration_eigen
                       max_diff_values max_diff_vectors relative_error_fortran
                       relative_error_eigen
        in (Exited 0, to_outfile report (to_cout report p4)))"

subsection \<open>\<^verbatim>\<open>main\<close>\<close>

text \<open>
  The command line is the program name \<^verbatim>\<open>argv[0]\<close> and the list of the arguments after
  it, so \<^verbatim>\<open>argc\<close> is one more than the length of that list. The exception of
  \<^verbatim>\<open>std::stoi\<close> is not caught. The result \<open>None\<close> is a run that never leaves the
  regeneration loop.
\<close>

definition main :: "env \<Rightarrow> string \<Rightarrow> string list \<Rightarrow> string \<Rightarrow> (status \<times> process) option" where
  "main env argv0 args stdin =
     (if 1 + length args \<noteq> 2
      then Some (Exited 1,
                 to_cerr [Text ''Usage: '', Text argv0, Text '' <use_lapack_in_eigen: 0 or 1>'', endl]
                   (start stdin))
      else case stoi (args ! 0) of
             Inl e \<Rightarrow> Some (Terminated e, start stdin)
           | Inr v \<Rightarrow>
               (case setup_matrix env (start stdin) of
                  None \<Rightarrow> None
                | Some (Inl r) \<Rightarrow> Some r
                | Some (Inr (size_n, A, p)) \<Rightarrow> Some (compare_backends env (v \<noteq> 0) size_n A p)))"


subsection \<open>The regeneration loop as the specification words it\<close>

text \<open>
  \<open>generated_condition env n j\<close> is the condition number of the \<open>j\<close>-th generated
  \<open>n \<times> n\<close> matrix, counted from 0.

  \<open>chosen c j answers\<close> follows the words of the specification, for the condition numbers
  \<open>c\<close>, the matrix \<open>j\<close> being the last one generated and the answers the operator still
  gives: the loop repeats while the answer is \<^verbatim>\<open>y\<close> or \<^verbatim>\<open>Y\<close> and the condition number
  of the fresh matrix exceeds the threshold; it ends with the fresh matrix once that
  is at or below the threshold, and with the last generated matrix on any other answer.
  The result is the index of the matrix used. \<open>None\<close>: the words say nothing (no answer
  left, or a condition number that is NaN and so neither exceeds the threshold nor is
  at or below it).
\<close>

definition generated_condition :: "env \<Rightarrow> nat \<Rightarrow> nat \<Rightarrow> double" where
  "generated_condition env n j =
     fdiv (singular_value env (random_matrix env j n) 0)
          (singular_value env (random_matrix env j n) (n - 1))"

fun chosen :: "(nat \<Rightarrow> double) \<Rightarrow> nat \<Rightarrow> char list \<Rightarrow> nat option" where
  "chosen c j [] = None"
| "chosen c j (a # as) =
     (if a = CHR ''y'' \<or> a = CHR ''Y'' then
        (if fle (c (Suc j)) condition_number_threshold then Some (Suc j)
         else if fgt (c (Suc j)) condition_number_threshold then chosen c (Suc j) as
         else None)
      else Some j)"

subsection \<open>The library backend as a single computation\<close>

text \<open>
  The computation that the specification ascribes to both modes of the library backend:
  \<^verbatim>\<open>Eigen::EigenSolver\<close> on \<open>A\<close>, the real parts, the duration, and one line of output
  that starts with the given label. \<open>numbers_of\<close> keeps of a result what is computed
  (the eigenvalues, the eigenvectors and the duration, or the way the run ended) and
  drops the output written on success.
\<close>

definition library_with_label ::
    "env \<Rightarrow> string \<Rightarrow> matrix \<Rightarrow> process
       \<Rightarrow> status \<times> process + matrix \<times> matrix \<times> double \<times> process" where
  "library_with_label env label A p =
     (let start = now env (clock_reads p);
          p1 = p\<lparr>clock_reads := clock_reads p + 1\<rparr>
      in if rows A \<noteq> cols A then Inl (Undefined, p1)
         else case eigen_solver env A of
             Inl m \<Rightarrow>
               Inl (Exited 1,
                    to_cerr [Text ''Error in Eigen library eigenvalue decomposition: '',
                             Text m, endl] p1)
           | Inr (eigenvalues, eigenvectors) \<Rightarrow>
               let W_eigen = \<lparr>rows = rows A, cols = 1,
                              coeffs = map (\<lambda>i. fst (eigenvalues i)) [0..<rows A]\<rparr>;
                   V_eigen = \<lparr>rows = rows A, cols = rows A,
                              coeffs = map (\<lambda>i. fst (eigenvectors i)) [0..<rows A * rows A]\<rparr>;
                   end = now env (clock_reads p1);
                   p2 = p1\<lparr>clock_reads := clock_reads p1 + 1\<rparr>;
                   duration_eigen = seconds env (end - start);
                   line = [Text label, Num duration_eigen, Text '' seconds'', endl]
               in Inr (W_eigen, V_eigen, duration_eigen, to_outfile line (to_cout line p2)))"

definition numbers_of ::
    "status \<times> process + matrix \<times> matrix \<times> double \<times> process
       \<Rightarrow> status \<times> process + matrix \<times> matrix \<times> double" where
  "numbers_of r = map_sum id (\<lambda>(W, V, d, p). (W, V, d)) r"

subsection \<open>A concrete environment\<close>

text \<open>
  An environment to run the program on: the \<open>k\<close>-th random matrix has all coefficients
  equal to \<open>k\<close>; its singular values are reported as 1 and 0, except for the matrix of
  twos, which gets 1 and 1; the Fortran routine succeeds. Product, inverse and norm are
  those of matrices with a single coefficient.
\<close>

definition example_env :: env where
  "example_env =
     \<lparr>random_coeff = (\<lambda>k j. Fin (of_nat k)),
      uninit = (\<lambda>j. NaN),
      singular_value = (\<lambda>M i. if i = 0 \<or> hd (coeffs M) = Fin 2 then Fin 1 else Fin 0),
      fortran_routine = (\<lambda>n a. (\<lambda>i. Fin 0, \<lambda>i. Fin 2, \<lambda>i. Fin 1, 0)),
      eigen_solver = (\<lambda>M. Inr (\<lambda>i. (Fin 2, Fin 0), \<lambda>i. (Fin 1, Fin 0))),
      product_coeff = (\<lambda>X Y i. fmul (hd (coeffs X)) (hd (coeffs Y))),
      inverse_coeff = (\<lambda>X i. fdiv (Fin 1) (hd (coeffs X))),
      frobenius_norm = (\<lambda>M. fabs (hd (coeffs M))),
      now = (\<lambda>k. int k * 1000),
      seconds = (\<lambda>t. Fin (of_int t))\<rparr>"

text \<open>The same environment with a Fortran routine that fails with status 3.\<close>

definition failing_env :: env where
  "failing_env =
     example_env\<lparr>fortran_routine := (\<lambda>n a. (\<lambda>i. Fin 0, \<lambda>i. Fin 0, \<lambda>i. Fin 0, 3))\<rparr>"

text \<open>
  An environment for matrices with two rows and two columns: the product is the sum of
  the products of a row with a column, the inverse is the adjugate divided by the
  determinant, and the norm is the square root of the sum of the squares. The square
  root is exact where that sum is the square of a rational number, which is all that is
  needed here, and NaN elsewhere.
\<close>

function isqrt :: "int \<Rightarrow> int" where
  "isqrt a = (if a \<le> 0 then 0
              else let r = 2 * isqrt (a div 4) in if (r + 1) * (r + 1) \<le> a then r + 1 else r)"
  by pat_completeness auto
termination
  by (relation "measure nat") auto

declare isqrt.simps [simp del]

definition exact_sqrt :: "double \<Rightarrow> double" where
  "exact_sqrt x =
     (case x of
        Fin q \<Rightarrow>
          (let (a, b) = quotient_of q; ra = isqrt a; rb = isqrt b
           in if ra * ra = a \<and> rb * rb = b then Fin (of_int ra / of_int rb) else NaN)
      | _ \<Rightarrow> x)"

definition dense_env :: env where
  "dense_env =
     example_env
       \<lparr>product_coeff := (\<lambda>X Y k.
          foldl fadd (Fin 0)
            (map (\<lambda>l. fmul (coeffs X ! (k mod rows X + l * rows X))
                            (coeffs Y ! (l + (k div rows X) * rows Y)))
               [0..<cols X])),
        inverse_coeff := (\<lambda>X k.
          let a = coeffs X ! 0; c = coeffs X ! 1; b = coeffs X ! 2; d = coeffs X ! 3;
              det = fsub (fmul a d) (fmul b c)
          in [fdiv d det, fdiv (fneg c) det, fdiv (fneg b) det, fdiv a det] ! k),
        frobenius_norm := (\<lambda>M.
          exact_sqrt (foldl fadd (Fin 0) (map (\<lambda>x. fmul x x) (coeffs M))))\<rparr>"

section \<open>Rounding never goes below one\<close>

lemma bitlen_nonneg: "0 \<le> bitlen a"
proof (induction a rule: bitlen.induct)
  case (1 a)
  show ?case
  proof (cases "0 < a")
    case True
    then have "bitlen a = 1 + bitlen (a div 2)" by (subst bitlen.simps) simp
    with "1.IH" [OF True] show ?thesis by simp
  next
    case False
    then have "bitlen a = 0" by (subst bitlen.simps) simp
    then show ?thesis by simp
  qed
qed

lemma bitlen_pos: "0 < a \<Longrightarrow> 0 < bitlen a"
proof -
  assume "0 < a"
  then have "bitlen a = 1 + bitlen (a div 2)" by (subst bitlen.simps) simp
  with bitlen_nonneg [of "a div 2"] show ?thesis by simp
qed

lemma bitlen_bounds:
  "0 < a \<Longrightarrow> 2 ^ nat (bitlen a - 1) \<le> a \<and> a < 2 ^ nat (bitlen a)"
proof (induction a rule: bitlen.induct)
  case (1 a)
  have b: "bitlen a = 1 + bitlen (a div 2)" using "1.prems" by (subst bitlen.simps) simp
  show ?case
  proof (cases "a = 1")
    case True
    have "bitlen (0::int) = 0" by (subst bitlen.simps) simp
    with b True have "bitlen a = 1" by simp
    with True show ?thesis by simp
  next
    case False
    with "1.prems" have h: "0 < a div 2" by simp
    from "1.IH" [OF "1.prems" h]
    have lo: "2 ^ nat (bitlen (a div 2) - 1) \<le> a div 2" and hi: "a div 2 < 2 ^ nat (bitlen (a div 2))"
      by simp_all
    have p: "0 < bitlen (a div 2)" using h by (rule bitlen_pos)
    have e1: "nat (bitlen a - 1) = Suc (nat (bitlen (a div 2) - 1))" using b p by simp
    have e2: "nat (bitlen a) = Suc (nat (bitlen (a div 2)))" using b p by simp
    have "2 * 2 ^ nat (bitlen (a div 2) - 1) \<le> 2 * (a div 2)" using lo by simp
    also have "\<dots> \<le> a" by simp
    finally have g1: "2 ^ nat (bitlen a - 1) \<le> a" by (simp add: e1)
    have "a div 2 + 1 \<le> 2 ^ nat (bitlen (a div 2))" using hi by simp
    then have "2 * (a div 2) + 2 \<le> 2 * 2 ^ nat (bitlen (a div 2))" by simp
    moreover have "a < 2 * (a div 2) + 2" by presburger
    ultimately have g2: "a < 2 ^ nat (bitlen a)" by (simp add: e2)
    from g1 g2 show ?thesis by simp
  qed
qed

lemma bitlen_powi:
  assumes "0 < a"
  shows "(2::rat) powi (bitlen a - 1) \<le> of_int a" and "of_int a < (2::rat) powi (bitlen a)"
proof -
  from bitlen_bounds [OF assms]
  have lo: "2 ^ nat (bitlen a - 1) \<le> a" and hi: "a < 2 ^ nat (bitlen a)" by simp_all
  have p: "0 < bitlen a" using assms by (rule bitlen_pos)
  have "(of_int (2 ^ nat (bitlen a - 1)) :: rat) \<le> of_int a" using lo by (simp only: of_int_le_iff)
  then show "(2::rat) powi (bitlen a - 1) \<le> of_int a" using p by (simp add: power_int_def)
  have "(of_int a :: rat) < of_int (2 ^ nat (bitlen a))" using hi by (simp only: of_int_less_iff)
  then show "of_int a < (2::rat) powi (bitlen a)" using p by (simp add: power_int_def)
qed

lemma ilog2_bounds:
  assumes "0 < q"
  shows "2 powi (ilog2 q) \<le> q" and "q < 2 powi (ilog2 q + 1)"
proof -
  obtain a b where ab: "quotient_of q = (a, b)" by (cases "quotient_of q")
  then have b0: "0 < b" by (rule quotient_of_denom_pos)
  from ab have q: "q = of_int a / of_int b" by (rule quotient_of_div)
  have a0: "0 < a" using assms b0 q by (simp add: zero_less_divide_iff)
  let ?k = "bitlen a - bitlen b"
  have il: "ilog2 q = (if 2 powi ?k \<le> q then ?k else ?k - 1)"
    by (simp add: ilog2_def ab)
  note A = bitlen_powi [OF a0] and B = bitlen_powi [OF b0]
  have bq: "(0::rat) < of_int b" using b0 by simp
  have lo: "2 powi (?k - 1) \<le> q"
  proof -
    have "(2::rat) powi (?k - 1) * of_int b \<le> 2 powi (?k - 1) * 2 powi (bitlen b)"
      using B(2) by (intro mult_left_mono) simp_all
    also have "\<dots> = 2 powi (bitlen a - 1)"
      by (simp add: power_int_add [symmetric])
    also have "\<dots> \<le> of_int a" by (rule A(1))
    finally show ?thesis using bq by (simp add: q pos_le_divide_eq)
  qed
  have hi: "q < 2 powi (?k + 1)"
  proof -
    have "of_int a < (2::rat) powi (bitlen a)" by (rule A(2))
    also have "\<dots> = 2 powi (?k + 1) * 2 powi (bitlen b - 1)"
      by (simp add: power_int_add [symmetric])
    also have "\<dots> \<le> 2 powi (?k + 1) * of_int b"
      using B(1) by (intro mult_left_mono) simp_all
    finally show ?thesis using bq by (simp add: q pos_divide_less_eq)
  qed
  show "2 powi (ilog2 q) \<le> q" using lo by (simp add: il)
  show "q < 2 powi (ilog2 q + 1)" using hi by (auto simp add: il not_le)
qed

lemma round_half_even_ge: "of_int n \<le> m \<Longrightarrow> n \<le> round_half_even m"
proof -
  assume "of_int n \<le> m"
  then have "n \<le> \<lfloor>m\<rfloor>" by (simp add: le_floor_iff)
  then show ?thesis by (simp add: round_half_even_def Let_def)
qed

lemma round_mag_ge_1:
  assumes "1 \<le> q"
  shows "1 \<le> round_mag q"
proof -
  have q0: "0 < q" using assms by simp
  note L = ilog2_bounds [OF q0]
  have e0: "0 \<le> ilog2 q"
  proof (rule ccontr)
    assume "\<not> 0 \<le> ilog2 q"
    then have "ilog2 q + 1 \<le> 0" by simp
    then have "(2::rat) powi (ilog2 q + 1) \<le> 2 powi 0"
      by (intro power_int_increasing) simp_all
    with L(2) assms show False by simp
  qed
  let ?e = "ilog2 q"
  let ?ulp = "(2::rat) powi (?e - 52)"
  define N :: int where "N = 2 ^ 52"
  have ulp0: "0 < ?ulp" by simp
  have rm: "round_mag q = of_int (round_half_even (q / ?ulp)) * ?ulp"
    using e0 by (simp add: round_mag_def Let_def max_def)
  have pN: "(of_int N :: rat) = 2 powi 52" by (simp add: N_def power_int_def)
  have e52: "52 + (?e - 52) = ?e" by simp
  have pe: "of_int N * ?ulp = 2 powi ?e"
  proof -
    have "of_int N * ?ulp = 2 powi 52 * 2 powi (?e - 52)" by (simp only: pN)
    also have "\<dots> = 2 powi (52 + (?e - 52))" by (rule power_int_add [symmetric]) simp
    finally show ?thesis by (simp only: e52)
  qed
  have "of_int N * ?ulp \<le> q" using L(1) by (simp only: pe)
  then have "of_int N \<le> q / ?ulp" using ulp0 by (simp only: pos_le_divide_eq)
  then have "N \<le> round_half_even (q / ?ulp)" by (rule round_half_even_ge)
  then have "(of_int N :: rat) \<le> of_int (round_half_even (q / ?ulp))"
    by (simp only: of_int_le_iff)
  then have "of_int N * ?ulp \<le> of_int (round_half_even (q / ?ulp)) * ?ulp"
    using ulp0 by (intro mult_right_mono) simp_all
  then have "2 powi ?e \<le> round_mag q" by (simp only: pe rm)
  moreover have "(2::rat) powi 0 \<le> 2 powi ?e" using e0 by (intro power_int_increasing) simp_all
  ultimately show ?thesis by simp
qed

lemma fround_ge_1: "1 \<le> q \<Longrightarrow> fle (Fin 1) (fround q)"
  using round_mag_ge_1 [of q] by (simp add: fround_def Let_def)


lemma fdiv_ge_1:
  assumes "is_finite a" "fle b a" "flt (Fin 0) b"
  shows "fle (Fin 1) (fdiv a b)"
proof (cases b)
  case b: (Fin qb)
  with assms(3) have qb: "0 < qb" by simp
  show ?thesis
  proof (cases a)
    case a: (Fin qa)
    with assms(2) b have le: "qb \<le> qa" by simp
    then have "1 \<le> qa / qb" using qb by (simp add: pos_le_divide_eq)
    then have "fle (Fin 1) (fround (qa / qb))" by (rule fround_ge_1)
    moreover have "fdiv a b = fround (qa / qb)" using a b qb le by simp
    ultimately show ?thesis by simp
  qed (use assms b qb in \<open>simp_all add: is_finite_def\<close>)
qed (use assms in \<open>auto simp add: is_finite_def split: double.splits\<close>)


lemma fround_3_2: "fround (3 / 2) = Fin (3 / 2)"
  by code_simp

text \<open>An integer below \<open>2\<^sup>5\<^sup>3\<close> is a double: rounding leaves it as it is.\<close>

lemma ilog2_nonneg:
  assumes "1 \<le> q"
  shows "0 \<le> ilog2 q"
proof (rule ccontr)
  have q0: "0 < q" using assms by simp
  assume "\<not> 0 \<le> ilog2 q"
  then have "ilog2 q + 1 \<le> 0" by simp
  then have "(2::rat) powi (ilog2 q + 1) \<le> 2 powi 0"
    by (intro power_int_increasing) simp_all
  with ilog2_bounds(2) [OF q0] assms show False by simp
qed

lemma round_half_even_int: "round_half_even (of_int N) = N"
  by (simp add: round_half_even_def)

lemma round_mag_int:
  assumes "1 \<le> k" "k < 2 ^ 53"
  shows "round_mag (of_int k) = of_int k"
proof -
  let ?q = "of_int k :: rat"
  have q1: "1 \<le> ?q" using assms(1) by simp
  then have q0: "0 < ?q" by simp
  let ?e = "ilog2 ?q"
  have e0: "0 \<le> ?e" using q1 by (rule ilog2_nonneg)
  have "?q < of_int (2 ^ 53)" using assms(2) by (simp only: of_int_less_iff)
  then have qlt: "?q < 2 powi 53" by (simp add: power_int_def)
  have e52: "?e \<le> 52"
  proof (rule ccontr)
    assume "\<not> ?e \<le> 52"
    then have "53 \<le> ?e" by simp
    then have "(2::rat) powi 53 \<le> 2 powi ?e" by (intro power_int_increasing) simp_all
    with ilog2_bounds(1) [OF q0] qlt show False by simp
  qed
  define d where "d = nat (52 - ?e)"
  have de: "?e - 52 = - int d" using e52 by (simp add: d_def)
  have ulp: "(2::rat) powi (?e - 52) = 1 / 2 ^ d"
    by (simp only: de power_int_minus power_int_of_nat inverse_eq_divide)
  have "?q / (1 / 2 ^ d) = of_int (k * 2 ^ d)" by simp
  then have rh: "round_half_even (?q / (1 / 2 ^ d)) = k * 2 ^ d"
    by (simp only: round_half_even_int)
  have "round_mag ?q = of_int (round_half_even (?q / (1 / 2 ^ d))) * (1 / 2 ^ d)"
    using e0 by (simp add: round_mag_def Let_def max_def ulp)
  also have "\<dots> = of_int (k * 2 ^ d) * (1 / 2 ^ d)" by (simp only: rh)
  also have "\<dots> = ?q" by simp
  finally show ?thesis .
qed

lemma fround_int:
  assumes "1 \<le> k" "k < 2 ^ 53"
  shows "fround (of_int k) = Fin (of_int k)" and "fround (- of_int k) = Fin (- of_int k)"
proof -
  have r: "round_mag (of_int k) = of_int k" using assms by (rule round_mag_int)
  have "(of_int k :: rat) < of_int (2 ^ 53)" using assms(2) by (simp only: of_int_less_iff)
  then have "(of_int k :: rat) < 2 ^ 53" by simp
  also have "(2::rat) ^ 53 \<le> 2 ^ 1024" by (intro power_increasing) simp_all
  finally have small: "\<not> (2::rat) ^ 1024 \<le> of_int k" by simp
  have pos: "(0::rat) < of_int k" using assms(1) by simp
  show "fround (of_int k) = Fin (of_int k)"
    using pos small by (simp add: fround_def Let_def r del: of_int_less_iff of_int_le_iff)
  have ab: "\<bar>- (of_int k :: rat)\<bar> = of_int k" using pos by simp
  show "fround (- of_int k) = Fin (- of_int k)"
    using pos small by (simp add: fround_def Let_def ab r)
qed

lemma fround_ints:
  "fround 1 = Fin 1" "fround (- 1) = Fin (- 1)" "fround 2 = Fin 2" "fround (- 2) = Fin (- 2)"
  "fround 3 = Fin 3" "fround 4 = Fin 4" "fround 5 = Fin 5" "fround (- 6) = Fin (- 6)"
  "fround 9 = Fin 9"
  using fround_int [of 1] fround_int [of 2] fround_int [of 3] fround_int [of 4]
    fround_int [of 5] fround_int [of 6] fround_int [of 9]
  by simp_all

lemma fround_1: "fround 1 = Fin 1"
  by (rule fround_ints)

lemma to_string_3: "to_string 3 = ''3''"
  by code_simp

section \<open>The condition number\<close>

text \<open>
  C5: for every square matrix the estimator takes the singular value decomposition and
  returns the quotient of the first singular value by the last one. \<^verbatim>\<open>JacobiSVD\<close>
  reports the singular values in decreasing order, so the first is the largest and the
  last the smallest. When they are finite and the smallest is positive (the matrix is
  nonsingular), the quotient, an IEEE division, is at least 1.
\<close>

theorem condition_number_ratio:
  assumes "rows M = cols M" and "0 < rows M"
    and "\<And>i j. i \<le> j \<Longrightarrow> j < rows M \<Longrightarrow>
           fle (singular_value env M j) (singular_value env M i)"
    and "is_finite (singular_value env M 0)"
    and "flt (Fin 0) (singular_value env M (rows M - 1))"
  shows "compute_condition_number env M =
           Inr (fdiv (singular_value env M 0) (singular_value env M (rows M - 1)))
         \<and> (\<forall>i < rows M. fle (singular_value env M i) (singular_value env M 0)
                        \<and> fle (singular_value env M (rows M - 1)) (singular_value env M i))
         \<and> fle (Fin 1) (fdiv (singular_value env M 0) (singular_value env M (rows M - 1)))"
proof -
  have c: "compute_condition_number env M =
           Inr (fdiv (singular_value env M 0) (singular_value env M (rows M - 1)))"
    using assms(1,2) by (simp add: compute_condition_number_def Let_def)
  have s: "\<forall>i < rows M. fle (singular_value env M i) (singular_value env M 0)
                        \<and> fle (singular_value env M (rows M - 1)) (singular_value env M i)"
    using assms(2,3) by auto
  have "fle (singular_value env M (rows M - 1)) (singular_value env M 0)"
    using assms(2,3) by simp
  with assms(4,5)
  have g: "fle (Fin 1) (fdiv (singular_value env M 0) (singular_value env M (rows M - 1)))"
    by (intro fdiv_ge_1)
  from c s g show ?thesis by simp
qed

text \<open>The matrix with the diagonal 2, 3 and the singular values 3, 2: 1.5.\<close>

theorem condition_number_ratio_witness:
  "compute_condition_number
     (example_env\<lparr>singular_value := (\<lambda>M i. if i = 0 then Fin 3 else Fin 2)\<rparr>)
     \<lparr>rows = 2, cols = 2, coeffs = [Fin 2, Fin 0, Fin 0, Fin 3]\<rparr> = Inr (Fin (3 / 2))
   \<and> fle (Fin 1) (Fin (3 / 2))"
  using condition_number_ratio
    [of "\<lparr>rows = 2, cols = 2, coeffs = [Fin 2, Fin 0, Fin 0, Fin 3]\<rparr>"
        "example_env\<lparr>singular_value := (\<lambda>M i. if i = 0 then Fin 3 else Fin 2)\<rparr>"]
  by (simp add: is_finite_def fround_3_2)

text \<open>
  C3, as stated: when the smallest singular value is exactly zero the estimator gives an
  explicit infinite sentinel or a dedicated error, not an IEEE NaN or infinity out of a
  division by zero. The code divides unguarded. For the zero matrix, whose singular
  values are all zero, it returns NaN; for singular values 1 and 0 it returns the
  infinity that the division by zero produces. Neither is an error.
\<close>

theorem singular_matrix_counterexample:
  "compute_condition_number (example_env\<lparr>singular_value := (\<lambda>M i. Fin 0)\<rparr>)
     \<lparr>rows = 2, cols = 2, coeffs = [Fin 0, Fin 0, Fin 0, Fin 0]\<rparr> = Inr NaN
   \<and> compute_condition_number example_env
       \<lparr>rows = 2, cols = 2, coeffs = [Fin 1, Fin 1, Fin 1, Fin 1]\<rparr> = Inr (Infinity False)"
  by (simp add: compute_condition_number_def example_env_def Let_def)

text \<open>
  C3, amended: when the smallest singular value is exactly zero, the estimator returns
  what the IEEE division by zero gives and no error: NaN when the largest singular value
  is zero or NaN as well, and otherwise an infinity, positive when both have the same
  sign.
\<close>

theorem singular_matrix_amended:
  assumes "0 < min (rows M) (cols M)"
    and "is_zero (singular_value env M (min (rows M) (cols M) - 1))"
  shows "compute_condition_number env M =
           Inr (if is_zero (singular_value env M 0) \<or> singular_value env M 0 = NaN then NaN
                else Infinity (sign_bit (singular_value env M 0)
                               \<noteq> sign_bit (singular_value env M (min (rows M) (cols M) - 1))))"
  using assms
  by (cases "singular_value env M 0")
     (auto simp add: compute_condition_number_def Let_def is_zero_def)

theorem singular_matrix_amended_witness:
  "compute_condition_number example_env
     \<lparr>rows = 2, cols = 2, coeffs = [Fin 1, Fin 1, Fin 1, Fin 1]\<rparr> = Inr (Infinity False)"
  using singular_matrix_amended
    [of "\<lparr>rows = 2, cols = 2, coeffs = [Fin 1, Fin 1, Fin 1, Fin 1]\<rparr>" example_env]
  by (simp add: example_env_def is_zero_def)

section \<open>The wrapper of the Fortran routine\<close>

lemma eigen_decomposition_status:
  assumes "A < length s" "W < length s" "V < length s"
    and "fortran_routine env (int (rows (s ! A))) (coeffs (s ! A)) = (fA, fW, fV, info)"
  shows "fst (eigen_decomposition env A W V s) =
           (if info \<noteq> 0
            then Inl (Runtime_error (''LAPACK eigen_decomposition failed with info code: ''
                                      @ to_string (sint info)))
            else Inr ())"
  using assms
  by (simp add: eigen_decomposition_def Let_def nth_append)

lemma eigen_decomposition_frame:
  assumes "i < length s" "i \<noteq> W" "i \<noteq> V"
  shows "snd (eigen_decomposition env A W V s) ! i = s ! i"
  using assms
  by (simp add: eigen_decomposition_def Let_def nth_append case_prod_beta)

lemma eigen_decomposition_length:
  "length (snd (eigen_decomposition env A W V s)) = length s"
  by (simp add: eigen_decomposition_def Let_def case_prod_beta)


text \<open>
  C8: the call of the native backend leaves the input matrix as it was. The wrapper hands
  the Fortran routine the buffer of its local copy, so whatever the routine writes into
  its three buffers, the object \<open>A\<close> of the store holds after the call what it held
  before, when the call succeeds and when it throws. \<open>A\<close> is an object of its own here,
  not the one passed for \<open>W\<close> or \<open>V\<close>, as in \<^verbatim>\<open>main\<close>.
\<close>

theorem wrapper_leaves_input:
  assumes "A < length s" "A \<noteq> W" "A \<noteq> V"
  shows "snd (eigen_decomposition env A W V s) ! A = s ! A
         \<and> length (snd (eigen_decomposition env A W V s)) = length s"
  using assms eigen_decomposition_frame [of A s W V env A]
    eigen_decomposition_length [of env A W V s]
  by simp

text \<open>The routine of \<open>example_env\<close> fills its working buffer with zeros.\<close>

theorem wrapper_leaves_input_witness:
  "snd (eigen_decomposition example_env 0 1 2
          [\<lparr>rows = 1, cols = 1, coeffs = [Fin 5]\<rparr>, fresh example_env 1 1,
           fresh example_env 1 1]) ! 0
     = \<lparr>rows = 1, cols = 1, coeffs = [Fin 5]\<rparr>
   \<and> length (snd (eigen_decomposition example_env 0 1 2
          [\<lparr>rows = 1, cols = 1, coeffs = [Fin 5]\<rparr>, fresh example_env 1 1,
           fresh example_env 1 1])) = 3"
  using wrapper_leaves_input
    [of 0 "[\<lparr>rows = 1, cols = 1, coeffs = [Fin 5]\<rparr>, fresh example_env 1 1,
            fresh example_env 1 1]" 1 2 example_env]
  by simp

text \<open>
  When the same object is passed for \<open>A\<close> and for \<open>V\<close>, the routine writes the
  eigenvectors into it: without the premise the input does change.
\<close>

lemma wrapper_aliased_call:
  "snd (eigen_decomposition example_env 0 1 0
          [\<lparr>rows = 1, cols = 1, coeffs = [Fin 5]\<rparr>, fresh example_env 1 1]) ! 0
     = \<lparr>rows = 1, cols = 1, coeffs = [Fin 1]\<rparr>"
  by (simp add: eigen_decomposition_def Let_def example_env_def fresh_def resize_def
        write_buffer_def)

section \<open>A failing native backend\<close>

text \<open>
  C2: when the Fortran routine sets a nonzero \<^verbatim>\<open>info\<close>, the wrapper throws a
  \<^verbatim>\<open>std::runtime_error\<close> whose message ends with the decimal status; \<^verbatim>\<open>main\<close> writes the
  message to \<^verbatim>\<open>std::cerr\<close> and returns 1. The output and the file hold what they held
  when the matrix was set up: no reconstruction error, no maximal difference and no
  summary is written. When \<^verbatim>\<open>info\<close> is 0 the wrapper returns normally. The premises
  say that the argument is an integer and that the set-up of the matrix has ended with
  the matrix \<open>A\<close>.
\<close>

theorem native_failure_exits:
  assumes "stoi a = Inr v"
    and "setup_matrix env (start stdin) = Some (Inr (size_n, A, p))"
    and "fortran_routine env (int (rows A)) (coeffs A) = (fA, fW, fV, info)"
  shows "(info \<noteq> 0 \<longrightarrow>
            fst (eigen_decomposition env 0 1 2 [A, W0, V0]) =
              Inl (Runtime_error (''LAPACK eigen_decomposition failed with info code: ''
                                  @ to_string (sint info)))
            \<and> main env argv0 [a] stdin =
                Some (Exited 1,
                      to_cerr [Text ''Error in Fortran LAPACK eigenvalue decomposition: '',
                               Text (''LAPACK eigen_decomposition failed with info code: ''
                                     @ to_string (sint info)),
                               endl]
                        (p\<lparr>clock_reads := clock_reads p + 1\<rparr>)))
         \<and> (info = 0 \<longrightarrow> fst (eigen_decomposition env 0 1 2 [A, W0, V0]) = Inr ())"
proof -
  have st: "fst (eigen_decomposition env 0 1 2 [A, W1, V1]) =
           (if info \<noteq> 0
            then Inl (Runtime_error (''LAPACK eigen_decomposition failed with info code: ''
                                      @ to_string (sint info)))
            else Inr ())" for W1 V1
    using assms(3) by (intro eigen_decomposition_status) simp_all
  have "main env argv0 [a] stdin =
          Some (Exited 1,
                to_cerr [Text ''Error in Fortran LAPACK eigenvalue decomposition: '',
                         Text (''LAPACK eigen_decomposition failed with info code: ''
                               @ to_string (sint info)),
                         endl]
                  (p\<lparr>clock_reads := clock_reads p + 1\<rparr>))" if "info \<noteq> 0"
  proof -
    let ?s = "[A, fresh env (nat size_n) 1, fresh env (nat size_n) (nat size_n)]"
    obtain r s' where e: "eigen_decomposition env 0 1 2 ?s = (r, s')"
      by (cases "eigen_decomposition env 0 1 2 ?s")
    with st [of "fresh env (nat size_n) 1" "fresh env (nat size_n) (nat size_n)"] that
    have r: "r = Inl (Runtime_error (''LAPACK eigen_decomposition failed with info code: ''
                                      @ to_string (sint info)))"
      by simp
    have "native_backend env size_n A p =
            Inl (Exited 1,
                 to_cerr [Text ''Error in Fortran LAPACK eigenvalue decomposition: '',
                          Text (''LAPACK eigen_decomposition failed with info code: ''
                                @ to_string (sint info)),
                          endl]
                   (p\<lparr>clock_reads := clock_reads p + 1\<rparr>))"
      using e r by (simp add: native_backend_def Let_def)
    then show ?thesis
      using assms(1,2) by (simp add: main_def compare_backends_def)
  qed
  with st [of W0 V0] show ?thesis by simp
qed

lemma setup_failing:
  "setup_matrix failing_env (start ''1'') =
     Some (Inr (1, \<lparr>rows = 1, cols = 1, coeffs = [Fin 0]\<rparr>,
       \<lparr>cin = [], cin_fail = False,
        cout = [Text ''Enter the size of the matrix: '',
                Text ''Condition number of the matrix: '', Num (Fin 1), endl],
        cerr = [],
        outfile = [Text ''Condition number of the matrix: '', Num (Fin 1), endl],
        rand_calls = 1, clock_reads = 0\<rparr>))"
  by (simp add: setup_matrix_def extract_int_def to_cout_def to_outfile_def start_def
        isspace_def isdigit_def digits_val_def Let_def compute_condition_number_def
        random_matrix_def failing_env_def example_env_def condition_number_threshold_def
        fgt_def fround_1)

theorem native_failure_exits_witness:
  "main failing_env ''prog'' [''1''] ''1'' =
     Some (Exited 1,
       \<lparr>cin = [], cin_fail = False,
        cout = [Text ''Enter the size of the matrix: '',
                Text ''Condition number of the matrix: '', Num (Fin 1), endl],
        cerr = [Text ''Error in Fortran LAPACK eigenvalue decomposition: '',
                Text ''LAPACK eigen_decomposition failed with info code: 3'', endl],
        outfile = [Text ''Condition number of the matrix: '', Num (Fin 1), endl],
        rand_calls = 1, clock_reads = 1\<rparr>)"
proof -
  have s: "stoi ''1'' = Inr 1"
    by (simp add: stoi_def isspace_def isdigit_def digits_val_def)
  have f: "fortran_routine failing_env (int (rows \<lparr>rows = 1, cols = 1, coeffs = [Fin 0]\<rparr>))
             (coeffs \<lparr>rows = 1, cols = 1, coeffs = [Fin 0]\<rparr>) =
           (\<lambda>i. Fin 0, \<lambda>i. Fin 0, \<lambda>i. Fin 0, 3)"
    by (simp add: failing_env_def)
  from native_failure_exits [OF s setup_failing f, of "fresh failing_env 1 1"
         "fresh failing_env 1 1" "''prog''"]
  show ?thesis by (simp add: to_string_3 to_cerr_def)
qed

section \<open>The regeneration loop\<close>

lemma condition_of_generated:
  "0 < n \<Longrightarrow> compute_condition_number env (random_matrix env j n) =
     Inr (generated_condition env n j)"
  by (simp add: compute_condition_number_def generated_condition_def random_matrix_def Let_def)

lemma first_answer:
  "filter (\<lambda>x. \<not> isspace x) xs = a # as \<Longrightarrow>
     \<exists>rest. dropWhile isspace xs = a # rest \<and> filter (\<lambda>x. \<not> isspace x) rest = as"
  by (induction xs) (auto split: if_splits)

lemma extract_char_answer:
  assumes "\<not> cin_fail p" and "filter (\<lambda>x. \<not> isspace x) (cin p) = a # as"
  shows "\<exists>p'. extract_char p = (Some a, p') \<and> \<not> cin_fail p'
              \<and> filter (\<lambda>x. \<not> isspace x) (cin p') = as
              \<and> rand_calls p' = rand_calls p \<and> cout p' = cout p
              \<and> cerr p' = cerr p \<and> outfile p' = outfile p"
proof -
  from first_answer [OF assms(2)] obtain rest
    where r: "dropWhile isspace (cin p) = a # rest" "filter (\<lambda>x. \<not> isspace x) rest = as"
    by blast
  then show ?thesis using assms(1) by (simp add: extract_char_def)
qed

lemma regenerate_loop_chosen:
  assumes "0 < n"
    and "as = filter (\<lambda>x. \<not> isspace x) (cin p)"
    and "chosen (generated_condition env n) j (a # as) = Some k"
    and "\<not> cin_fail p" and "rand_calls p = Suc j"
  shows "\<exists>p'. regenerate_loop env n (random_matrix env j n) (Some a) p =
                Some (Inr (random_matrix env k n, p')) \<and> rand_calls p' = Suc k"
  using assms(2-)
proof (induction as arbitrary: a j p)
  case Nil
  show ?case
  proof (cases "a = CHR ''y'' \<or> a = CHR ''Y''")
    case False
    with Nil show ?thesis by (subst regenerate_loop.simps) auto
  next
    case True
    with Nil have g: "fle (generated_condition env n (Suc j)) condition_number_threshold" "k = Suc j"
      by (auto split: if_splits)
    with True Nil show ?thesis
      by (subst regenerate_loop.simps)
         (auto simp add: condition_of_generated [OF assms(1)] Let_def to_cout_def to_outfile_def)
  qed
next
  case (Cons a' as')
  show ?case
  proof (cases "a = CHR ''y'' \<or> a = CHR ''Y''")
    case False
    with Cons.prems show ?thesis by (subst regenerate_loop.simps) auto
  next
    case yes: True
    show ?thesis
    proof (cases "fle (generated_condition env n (Suc j)) condition_number_threshold")
      case True
      with yes Cons.prems have "k = Suc j" by simp
      with True yes Cons.prems show ?thesis
        by (subst regenerate_loop.simps)
           (auto simp add: condition_of_generated [OF assms(1)] Let_def to_cout_def to_outfile_def)
    next
      case False
      with yes Cons.prems
      have ch: "chosen (generated_condition env n) (Suc j) (a' # as') = Some k"
        by (simp split: if_splits)
      let ?line = "[Text ''Condition number of the new matrix: '',
                    Num (generated_condition env n (Suc j)), endl]"
      let ?p3 = "to_cout [Text ''Regenerate again? (y/n): '']
                   (to_outfile ?line (to_cout ?line (p\<lparr>rand_calls := rand_calls p + 1\<rparr>)))"
      have nf: "\<not> cin_fail ?p3" using Cons.prems by (simp add: to_cout_def to_outfile_def)
      have fl: "filter (\<lambda>x. \<not> isspace x) (cin ?p3) = a' # as'"
        using Cons.prems by (simp add: to_cout_def to_outfile_def)
      from extract_char_answer [OF nf fl] obtain p4
        where p4: "extract_char ?p3 = (Some a', p4)" "\<not> cin_fail p4"
          "filter (\<lambda>x. \<not> isspace x) (cin p4) = as'" "rand_calls p4 = rand_calls ?p3"
        by blast
      have rc: "rand_calls p4 = Suc (Suc j)"
        using p4(4) Cons.prems by (simp add: to_cout_def to_outfile_def)
      from Cons.IH [OF p4(3) [symmetric] ch p4(2) rc] obtain p'
        where r: "regenerate_loop env n (random_matrix env (Suc j) n) (Some a') p4 =
                    Some (Inr (random_matrix env k n, p'))" "rand_calls p' = Suc k"
        by blast
      have "regenerate_loop env n (random_matrix env j n) (Some a) p =
              regenerate_loop env n (random_matrix env (Suc j) n) (Some a') p4"
        using yes False Cons.prems p4(1)
        by (subst regenerate_loop.simps)
           (simp add: condition_of_generated [OF assms(1)] Let_def)
      with r show ?thesis by simp
    qed
  qed
qed

lemma fgt_iff_not_fle: "x \<noteq> NaN \<Longrightarrow> y \<noteq> NaN \<Longrightarrow> fgt x y = (\<not> fle x y)"
  by (cases x; cases y) (auto simp add: fgt_def)

text \<open>
  One turn of the loop, in the code's own terms: after the answer \<^verbatim>\<open>y\<close> or \<^verbatim>\<open>Y\<close> and a
  fresh matrix whose condition number is not at or below the threshold (a NaN is not),
  the operator is asked again; when no answer can be read the old one stays.
\<close>

lemma regenerate_loop_continues:
  assumes "c = CHR ''y'' \<or> c = CHR ''Y''"
    and "compute_condition_number env (random_matrix env (rand_calls p) n) = Inr x"
    and "\<not> fle x condition_number_threshold"
  shows "regenerate_loop env n A (Some c) p =
           (let line = [Text ''Condition number of the new matrix: '', Num x, endl];
                p2 = to_outfile line (to_cout line (p\<lparr>rand_calls := rand_calls p + 1\<rparr>));
                (r, p3) = extract_char (to_cout [Text ''Regenerate again? (y/n): ''] p2)
            in regenerate_loop env n (random_matrix env (rand_calls p) n)
                 (case r of None \<Rightarrow> Some c | Some c' \<Rightarrow> Some c') p3)"
  using assms by (subst regenerate_loop.simps) (simp add: Let_def)

text \<open>
  C7: the size \<open>size_n\<close> has been read and is positive, and the input has not failed.
  When the condition number of the first matrix does not exceed the threshold, the
  loop is not entered: no answer is read, one matrix has been generated and it is the
  one used. When it exceeds the threshold, the answers are the characters of the rest of
  the input that are not white space, and whenever \<open>chosen\<close> names a matrix \<open>k\<close> for
  them, the set-up ends with the \<open>k\<close>-th matrix, which is the last of the \<open>k + 1\<close>
  generated ones. By \<open>fgt_iff_not_fle\<close> a condition number that is not NaN exceeds the
  threshold exactly when it is not at or below it.
\<close>

theorem regeneration_loop:
  assumes "extract_int (to_cout [Text ''Enter the size of the matrix: ''] (start stdin))
             = (Some size_n, p2)"
    and "0 < size_n" and "\<not> cin_fail p2"
  shows "(\<not> fgt (generated_condition env (nat size_n) 0) condition_number_threshold \<longrightarrow>
            (\<exists>p. setup_matrix env (start stdin) =
                    Some (Inr (size_n, random_matrix env 0 (nat size_n), p))
                 \<and> cin p = cin p2 \<and> rand_calls p = 1))
         \<and> (fgt (generated_condition env (nat size_n) 0) condition_number_threshold
              \<and> chosen (generated_condition env (nat size_n)) 0
                   (filter (\<lambda>x. \<not> isspace x) (cin p2)) = Some k \<longrightarrow>
            (\<exists>p. setup_matrix env (start stdin) =
                    Some (Inr (size_n, random_matrix env k (nat size_n), p))
                 \<and> rand_calls p = Suc k))"
proof -
  let ?n = "nat size_n"
  let ?c = "generated_condition env ?n"
  have n: "0 < ?n" using assms(2) by simp
  have rc: "rand_calls p2 = 0" and nf: "\<not> cin_fail p2"
    using assms(1,3)
    by (auto simp add: extract_int_def to_cout_def start_def Let_def split: if_splits)
  note cg = condition_of_generated [OF n, of env]
  let ?line = "[Text ''Condition number of the matrix: '', Num (?c 0), endl]"
  let ?p4 = "to_outfile ?line (to_cout ?line (p2\<lparr>rand_calls := rand_calls p2 + 1\<rparr>))"
  have first: "\<exists>p. setup_matrix env (start stdin) =
                    Some (Inr (size_n, random_matrix env 0 ?n, p))
                 \<and> cin p = cin p2 \<and> rand_calls p = 1"
    if "\<not> fgt (?c 0) condition_number_threshold"
    using that assms(1,2) rc
    by (simp add: setup_matrix_def Let_def cg to_cout_def to_outfile_def)
  have second: "\<exists>p. setup_matrix env (start stdin) =
                    Some (Inr (size_n, random_matrix env k ?n, p)) \<and> rand_calls p = Suc k"
    if g: "fgt (?c 0) condition_number_threshold"
      and ch: "chosen ?c 0 (filter (\<lambda>x. \<not> isspace x) (cin p2)) = Some k"
  proof -
    from ch obtain a as where as: "filter (\<lambda>x. \<not> isspace x) (cin p2) = a # as"
      by (cases "filter (\<lambda>x. \<not> isspace x) (cin p2)") simp_all
    let ?p5 = "to_cout [Text (''Condition number is poor. Regenerate matrix for better ''
                              @ ''condition number? (y/n): '')] ?p4"
    have nf5: "\<not> cin_fail ?p5" using nf by (simp add: to_cout_def to_outfile_def)
    have fl5: "filter (\<lambda>x. \<not> isspace x) (cin ?p5) = a # as"
      using as by (simp add: to_cout_def to_outfile_def)
    from extract_char_answer [OF nf5 fl5] obtain p6
      where p6: "extract_char ?p5 = (Some a, p6)" "\<not> cin_fail p6"
        "filter (\<lambda>x. \<not> isspace x) (cin p6) = as" "rand_calls p6 = rand_calls ?p5"
      by blast
    have rc6: "rand_calls p6 = Suc 0"
      using p6(4) rc by (simp add: to_cout_def to_outfile_def)
    from ch as have ch': "chosen ?c 0 (a # as) = Some k" by simp
    from regenerate_loop_chosen [OF n p6(3) [symmetric] ch' p6(2) rc6] obtain p'
      where r: "regenerate_loop env ?n (random_matrix env 0 ?n) (Some a) p6 =
                  Some (Inr (random_matrix env k ?n, p'))" "rand_calls p' = Suc k"
      by blast
    have "setup_matrix env (start stdin) =
            map_option (map_sum id (\<lambda>(A', p'). (size_n, A', p')))
              (regenerate_loop env ?n (random_matrix env 0 ?n) (Some a) p6)"
      using g assms(1,2) rc p6(1)
      by (simp add: setup_matrix_def Let_def cg)
    with r show ?thesis by simp
  qed
  from first second show ?thesis by blast
qed


text \<open>
  In \<open>example_env\<close> the matrices 0 and 1 have an infinite condition number and the matrix
  2 has the condition number 1. With the answers \<^verbatim>\<open>y y\<close> the matrix 2 is used, with
  \<^verbatim>\<open>y n\<close> the matrix 1.
\<close>

lemma example_conditions:
  "generated_condition example_env 2 j = (if j = 2 then Fin 1 else Infinity False)"
proof -
  have "hd (coeffs (random_matrix example_env j 2)) = Fin (of_nat j)"
    by (simp add: random_matrix_def example_env_def upt_conv_Cons)
  moreover have "(of_nat j :: rat) = 2 \<longleftrightarrow> j = 2"
    by (metis of_nat_eq_iff of_nat_numeral)
  ultimately show ?thesis
    by (simp add: generated_condition_def example_env_def fround_1)
qed

lemma example_size_yy:
  "extract_int (to_cout [Text ''Enter the size of the matrix: ''] (start ''2 y y'')) =
     (Some 2, \<lparr>cin = '' y y'', cin_fail = False,
               cout = [Text ''Enter the size of the matrix: ''], cerr = [], outfile = [],
               rand_calls = 0, clock_reads = 0\<rparr>)"
  "extract_int (to_cout [Text ''Enter the size of the matrix: ''] (start ''2 y n'')) =
     (Some 2, \<lparr>cin = '' y n'', cin_fail = False,
               cout = [Text ''Enter the size of the matrix: ''], cerr = [], outfile = [],
               rand_calls = 0, clock_reads = 0\<rparr>)"
  by (simp_all add: extract_int_def to_cout_def start_def isspace_def isdigit_def
        digits_val_def Let_def)

theorem regeneration_loop_witness:
  "(\<exists>p. setup_matrix example_env (start ''2 y y'') =
          Some (Inr (2, random_matrix example_env 2 2, p)) \<and> rand_calls p = 3)
   \<and> (\<exists>p. setup_matrix example_env (start ''2 y n'') =
          Some (Inr (2, random_matrix example_env 1 2, p)) \<and> rand_calls p = 2)"
proof -
  have a: "\<exists>p. setup_matrix example_env (start ''2 y y'') =
          Some (Inr (2, random_matrix example_env 2 2, p)) \<and> rand_calls p = 3"
    using regeneration_loop [OF example_size_yy(1), of example_env 2]
    by (simp add: example_conditions isspace_def fgt_def condition_number_threshold_def)
  have b: "\<exists>p. setup_matrix example_env (start ''2 y n'') =
          Some (Inr (2, random_matrix example_env 1 2, p)) \<and> rand_calls p = 2"
  proof -
    from regeneration_loop [OF example_size_yy(2), of example_env 1]
    have "\<exists>p. setup_matrix example_env (start ''2 y n'') =
          Some (Inr (2, random_matrix example_env 1 2, p)) \<and> rand_calls p = Suc 1"
      by (simp add: example_conditions isspace_def fgt_def condition_number_threshold_def)
    then show ?thesis by (simp add: numeral_2_eq_2)
  qed
  from a b show ?thesis by simp
qed


section \<open>The two modes of the library backend\<close>

text \<open>
  C4: for every matrix the library backend computes the same eigenvalues and
  eigenvectors whatever the mode flag is. Both branches are the one computation
  \<open>library_with_label\<close>, \<^verbatim>\<open>Eigen::EigenSolver\<close> on \<open>A\<close> with the real parts taken, and the
  flag selects only the label of the printed line; the numbers and the way the run
  ends are equal for the two values of the flag.
\<close>

theorem library_mode_only_label:
  "library_backend env use_lapack_in_eigen A p =
     library_with_label env
       (if use_lapack_in_eigen then ''Eigen Library (with LAPACK) Duration: ''
        else ''Eigen Library (without LAPACK) Duration: '') A p
   \<and> numbers_of (library_backend env True A p) = numbers_of (library_backend env False A p)"
  by (simp add: library_backend_def library_with_label_def numbers_of_def Let_def
        split: sum.splits prod.splits)

theorem library_mode_only_label_witness:
  "numbers_of (library_backend example_env True \<lparr>rows = 1, cols = 1, coeffs = [Fin 5]\<rparr>
                 (start ''x'')) =
     Inr (\<lparr>rows = 1, cols = 1, coeffs = [Fin 2]\<rparr>, \<lparr>rows = 1, cols = 1, coeffs = [Fin 1]\<rparr>,
          Fin 1000)
   \<and> numbers_of (library_backend example_env False \<lparr>rows = 1, cols = 1, coeffs = [Fin 5]\<rparr>
                   (start ''x'')) =
       Inr (\<lparr>rows = 1, cols = 1, coeffs = [Fin 2]\<rparr>, \<lparr>rows = 1, cols = 1, coeffs = [Fin 1]\<rparr>,
            Fin 1000)"
proof -
  let ?M = "\<lparr>rows = 1, cols = 1, coeffs = [Fin 5]\<rparr>"
  note t = library_mode_only_label [of example_env True ?M "start ''x''"]
  from t [THEN conjunct1]
  have a: "library_backend example_env True ?M (start ''x'') =
             library_with_label example_env ''Eigen Library (with LAPACK) Duration: '' ?M
               (start ''x'')"
    by simp
  from t [THEN conjunct2]
  have b: "numbers_of (library_backend example_env True ?M (start ''x'')) =
           numbers_of (library_backend example_env False ?M (start ''x''))" .
  have c: "numbers_of (library_backend example_env True ?M (start ''x'')) =
             Inr (\<lparr>rows = 1, cols = 1, coeffs = [Fin 2]\<rparr>,
                  \<lparr>rows = 1, cols = 1, coeffs = [Fin 1]\<rparr>, Fin 1000)"
    by (subst a)
       (simp add: library_with_label_def numbers_of_def example_env_def Let_def start_def
          to_cout_def to_outfile_def)
  from b c show ?thesis by simp
qed

section \<open>The validator\<close>

lemma index_bound: "i < n \<Longrightarrow> j < n \<Longrightarrow> i + j * n < n * (n::nat)"
proof -
  assume i: "i < n" and j: "j < n"
  have "i + j * n < n + j * n" using i by simp
  also have "\<dots> = (Suc j) * n" by simp
  also have "\<dots> \<le> n * n" using j by (metis Suc_leI mult_le_mono1)
  finally show ?thesis .
qed

text \<open>
  C1: for a square matrix \<open>A\<close>, eigenvalues \<open>W\<close> and eigenvectors \<open>V\<close> of matching
  dimension \<open>n\<close> the validator returns the Frobenius norm of \<open>D\<close> divided by the
  Frobenius norm of \<open>A\<close>, where
  \<^item> \<open>VD\<close> is \<open>V \<cdot> diag(W)\<close>: its coefficient in row \<open>i\<close> and column \<open>j\<close> is that of
    \<open>V\<close> times \<open>W\<^sub>j\<close> (the columns are scaled, not the rows);
  \<^item> \<open>V_inverse\<close> is the inverse of \<open>V\<close> and \<open>A_reconstructed\<close> the product of \<open>VD\<close>
    and \<open>V_inverse\<close>, in this order, as the Eigen library computes them;
  \<^item> \<open>D\<close> is \<open>A - A_reconstructed\<close>, coefficient by coefficient.
  The norm is the one of the Eigen library and the quotient the IEEE division. Neither
  the norm of \<open>A\<close> nor the invertibility of \<open>V\<close> is needed for that.
\<close>

theorem relative_error_formula:
  assumes "rows A = n" "cols A = n" "length (coeffs A) = n * n"
    and "rows V = n" "cols V = n" "rows W = n" "cols W = 1"
  shows "\<exists>VD V_inverse (A_reconstructed :: matrix) D.
           rows VD = n \<and> cols VD = n \<and> length (coeffs VD) = n * n
         \<and> (\<forall>i < n. \<forall>j < n.
               coeffs VD ! (i + j * n) = fmul (coeffs V ! (i + j * n)) (coeffs W ! j))
         \<and> rows V_inverse = n \<and> cols V_inverse = n \<and> length (coeffs V_inverse) = n * n
         \<and> (\<forall>k < n * n. coeffs V_inverse ! k = inverse_coeff env V k)
         \<and> rows A_reconstructed = n \<and> cols A_reconstructed = n
         \<and> length (coeffs A_reconstructed) = n * n
         \<and> (\<forall>k < n * n. coeffs A_reconstructed ! k = product_coeff env VD V_inverse k)
         \<and> rows D = n \<and> cols D = n \<and> length (coeffs D) = n * n
         \<and> (\<forall>k < n * n. coeffs D ! k = fsub (coeffs A ! k) (coeffs A_reconstructed ! k))
         \<and> map_sum id fst (check_decomposition env A W V method p) =
             Inr (fdiv (frobenius_norm env D) (frobenius_norm env A))"
proof -
  define VD where "VD = \<lparr>rows = n, cols = n,
      coeffs = map (\<lambda>k. fmul (coeffs V ! k) (coeffs W ! (k div n))) [0..<n * n]\<rparr>"
  define V_inverse where "V_inverse = \<lparr>rows = n, cols = n,
      coeffs = map (inverse_coeff env V) [0..<n * n]\<rparr>"
  define A_reconstructed where "A_reconstructed = \<lparr>rows = n, cols = n,
      coeffs = map (product_coeff env VD V_inverse) [0..<n * n]\<rparr>"
  define D where "D = \<lparr>rows = n, cols = n,
      coeffs = map2 fsub (coeffs A) (coeffs A_reconstructed)\<rparr>"
  have d1: "diag_product V W = Inr VD"
    using assms by (simp add: diag_product_def VD_def)
  have d2: "inverse_m env V = Inr V_inverse"
    using assms by (simp add: inverse_m_def V_inverse_def)
  have d3: "product env VD V_inverse = Inr A_reconstructed"
    by (simp add: product_def A_reconstructed_def VD_def V_inverse_def)
  have d4: "difference A A_reconstructed = Inr D"
    using assms by (simp add: difference_def D_def A_reconstructed_def)
  have r: "map_sum id fst (check_decomposition env A W V method p) =
             Inr (fdiv (frobenius_norm env D) (frobenius_norm env A))"
    by (simp add: check_decomposition_def d1 d2 d3 d4 Let_def)
  have vd: "\<forall>i < n. \<forall>j < n.
               coeffs VD ! (i + j * n) = fmul (coeffs V ! (i + j * n)) (coeffs W ! j)"
  proof (intro allI impI)
    fix i j assume i: "i < n" and j: "j < n"
    have b: "i + j * n < n * n" using i j by (rule index_bound)
    have "(i + j * n) div n = j" using i by simp
    with b show "coeffs VD ! (i + j * n) = fmul (coeffs V ! (i + j * n)) (coeffs W ! j)"
      by (simp add: VD_def)
  qed
  have vi: "\<forall>k < n * n. coeffs V_inverse ! k = inverse_coeff env V k"
    by (simp add: V_inverse_def)
  have ar: "\<forall>k < n * n. coeffs A_reconstructed ! k = product_coeff env VD V_inverse k"
    by (simp add: A_reconstructed_def)
  have dd: "\<forall>k < n * n. coeffs D ! k = fsub (coeffs A ! k) (coeffs A_reconstructed ! k)"
    using assms(3) by (simp add: D_def A_reconstructed_def)
  have dims: "rows VD = n" "cols VD = n" "length (coeffs VD) = n * n"
    "rows V_inverse = n" "cols V_inverse = n" "length (coeffs V_inverse) = n * n"
    "rows A_reconstructed = n" "cols A_reconstructed = n"
    "length (coeffs A_reconstructed) = n * n"
    "rows D = n" "cols D = n" "length (coeffs D) = n * n"
    using assms(3) by (simp_all add: VD_def V_inverse_def A_reconstructed_def D_def)
  show ?thesis
    apply (rule exI [of _ VD])
    apply (rule exI [of _ V_inverse])
    apply (rule exI [of _ A_reconstructed])
    apply (rule exI [of _ D])
    apply (intro conjI dims vd vi ar dd r)
    done
qed

text \<open>
  The eigenvectors \<open>(1, 0)\<close> and \<open>(2, 1)\<close> with the eigenvalues 3 and 2 reconstruct the
  matrix with the rows \<open>(3, -2)\<close> and \<open>(0, 2)\<close>. Against the matrix with the rows
  \<open>(2, 0)\<close> and \<open>(0, 0)\<close> the difference has the norm 3 and the relative error is
  1.5. Scaling the rows of \<open>V\<close> instead, or leaving the subtraction out, would give a
  norm whose square is 5 or 17.
\<close>

lemma exact_sqrt_squares: "exact_sqrt (Fin 9) = Fin 3" "exact_sqrt (Fin 4) = Fin 2"
  by code_simp+

lemma dense_steps:
  "diag_product \<lparr>rows = 2, cols = 2, coeffs = [Fin 1, Fin 0, Fin 2, Fin 1]\<rparr>
       \<lparr>rows = 2, cols = 1, coeffs = [Fin 3, Fin 2]\<rparr>
     = Inr \<lparr>rows = 2, cols = 2, coeffs = [Fin 3, Fin 0, Fin 4, Fin 2]\<rparr>"
  "inverse_m dense_env \<lparr>rows = 2, cols = 2, coeffs = [Fin 1, Fin 0, Fin 2, Fin 1]\<rparr>
     = Inr \<lparr>rows = 2, cols = 2, coeffs = [Fin 1, NegZero, Fin (- 2), Fin 1]\<rparr>"
  "product dense_env \<lparr>rows = 2, cols = 2, coeffs = [Fin 3, Fin 0, Fin 4, Fin 2]\<rparr>
       \<lparr>rows = 2, cols = 2, coeffs = [Fin 1, NegZero, Fin (- 2), Fin 1]\<rparr>
     = Inr \<lparr>rows = 2, cols = 2, coeffs = [Fin 3, Fin 0, Fin (- 2), Fin 2]\<rparr>"
  "difference \<lparr>rows = 2, cols = 2, coeffs = [Fin 2, Fin 0, Fin 0, Fin 0]\<rparr>
       \<lparr>rows = 2, cols = 2, coeffs = [Fin 3, Fin 0, Fin (- 2), Fin 2]\<rparr>
     = Inr \<lparr>rows = 2, cols = 2, coeffs = [Fin (- 1), Fin 0, Fin 2, Fin (- 2)]\<rparr>"
  "frobenius_norm dense_env \<lparr>rows = 2, cols = 2, coeffs = [Fin (- 1), Fin 0, Fin 2, Fin (- 2)]\<rparr>
     = Fin 3"
  "frobenius_norm dense_env \<lparr>rows = 2, cols = 2, coeffs = [Fin 2, Fin 0, Fin 0, Fin 0]\<rparr>
     = Fin 2"
  by (simp_all add: diag_product_def inverse_m_def product_def difference_def dense_env_def
        fsub_def zero_of_def Let_def upt_conv_Cons fround_ints exact_sqrt_squares)

theorem relative_error_formula_witness:
  "map_sum id fst
     (check_decomposition dense_env \<lparr>rows = 2, cols = 2, coeffs = [Fin 2, Fin 0, Fin 0, Fin 0]\<rparr>
        \<lparr>rows = 2, cols = 1, coeffs = [Fin 3, Fin 2]\<rparr>
        \<lparr>rows = 2, cols = 2, coeffs = [Fin 1, Fin 0, Fin 2, Fin 1]\<rparr>
        ''Fortran LAPACK'' (start ''x'')) = Inr (Fin (3 / 2))"
proof -
  let ?A = "\<lparr>rows = 2, cols = 2, coeffs = [Fin 2, Fin 0, Fin 0, Fin 0]\<rparr>"
  let ?W = "\<lparr>rows = 2, cols = 1, coeffs = [Fin 3, Fin 2]\<rparr>"
  let ?V = "\<lparr>rows = 2, cols = 2, coeffs = [Fin 1, Fin 0, Fin 2, Fin 1]\<rparr>"
  have "\<exists>D. map_sum id fst
              (check_decomposition dense_env ?A ?W ?V ''Fortran LAPACK'' (start ''x'')) =
            Inr (fdiv (frobenius_norm dense_env D) (frobenius_norm dense_env ?A))"
    using relative_error_formula [of ?A 2 ?V ?W dense_env "''Fortran LAPACK''" "start ''x''"]
    by auto
  then obtain r where
    "map_sum id fst
       (check_decomposition dense_env ?A ?W ?V ''Fortran LAPACK'' (start ''x'')) = Inr r"
    by blast
  moreover have
    "map_sum id fst
       (check_decomposition dense_env ?A ?W ?V ''Fortran LAPACK'' (start ''x'')) =
     Inr (Fin (3 / 2))"
  proof -
    have w: "\<lparr>rows = 2, cols = Suc 0, coeffs = [Fin 3, Fin 2]\<rparr> = ?W" by simp
    show ?thesis
      by (simp add: check_decomposition_def w dense_steps fround_3_2 Let_def del: One_nat_def)
  qed
  ultimately show ?thesis by simp
qed


text \<open>
  C10: the validator signals no error. For matrices of matching dimensions, \<open>A\<close> and
  \<open>V\<close> of dimension \<open>n \<times> n\<close> and \<open>W\<close> of length \<open>n\<close>, every precondition of the Eigen
  operations holds, the inverse is taken without a test whatever \<open>V\<close> is, and the
  result is some double \<open>r\<close>, written to the output and to the file. This holds for
  every environment, hence for every value the inversion and the norms may produce.
\<close>

theorem check_decomposition_total:
  assumes "rows A = n" "cols A = n" "rows V = n" "cols V = n" "rows W = n" "cols W = 1"
  shows "\<exists>r. check_decomposition env A W V method p =
               Inr (r, to_outfile [Text method, Text '' relative reconstruction error: '',
                                   Num r, endl]
                         (to_cout [Text method, Text '' relative reconstruction error: '',
                                   Num r, endl] p))"
  using assms
  by (simp add: check_decomposition_def diag_product_def inverse_m_def product_def
        difference_def Let_def)


text \<open>
  A singular \<open>V\<close>: the matrix with the one coefficient 0. Its inverse is infinite, the
  reconstruction is NaN, and NaN is stored as the relative error.
\<close>

theorem check_decomposition_total_witness:
  "check_decomposition example_env \<lparr>rows = 1, cols = 1, coeffs = [Fin 5]\<rparr>
      \<lparr>rows = 1, cols = 1, coeffs = [Fin 5]\<rparr> \<lparr>rows = 1, cols = 1, coeffs = [Fin 0]\<rparr>
      ''Eigen Library'' (start '''') =
     Inr (NaN, \<lparr>cin = '''', cin_fail = False,
                cout = [Text ''Eigen Library'', Text '' relative reconstruction error: '',
                        Num NaN, endl],
                cerr = [],
                outfile = [Text ''Eigen Library'', Text '' relative reconstruction error: '',
                           Num NaN, endl],
                rand_calls = 0, clock_reads = 0\<rparr>)"
  using check_decomposition_total
    [of "\<lparr>rows = 1, cols = 1, coeffs = [Fin 5]\<rparr>" 1 "\<lparr>rows = 1, cols = 1, coeffs = [Fin 0]\<rparr>"
        "\<lparr>rows = 1, cols = 1, coeffs = [Fin 5]\<rparr>" example_env "''Eigen Library''" "start ''''"]
  by (simp add: check_decomposition_def diag_product_def inverse_m_def product_def
        difference_def Let_def example_env_def fsub_def zero_of_def to_cout_def to_outfile_def
        start_def)


section \<open>The differences between the backends\<close>











section \<open>Usage errors\<close>

text \<open>
  The two ways in which \<^verbatim>\<open>main\<close> can end before it reads the size. A command line with
  other than exactly one argument gives the usage message on the error stream and the
  exit code 1. An argument that \<^verbatim>\<open>std::stoi\<close> rejects makes it throw, and the exception
  leaves \<^verbatim>\<open>main\<close>. In both cases nothing was read from the input, nothing was written to
  the output or to the file and no matrix was generated, whatever the environment.
\<close>

lemma usage_error_paths:
  "(length args \<noteq> 1 \<longrightarrow>
      main env argv0 args stdin =
        Some (Exited 1,
              to_cerr [Text ''Usage: '', Text argv0, Text '' <use_lapack_in_eigen: 0 or 1>'', endl]
                (start stdin)))
   \<and> (args = [a] \<and> stoi a = Inl e \<longrightarrow>
        main env argv0 args stdin = Some (Terminated e, start stdin))"
  by (simp add: main_def)

text \<open>An argument that only starts with an integer is accepted as that integer.\<close>

lemma stoi_accepts_prefix: "stoi ''1abc'' = Inr 1"
  by (simp add: stoi_def isspace_def isdigit_def digits_val_def)

text \<open>
  C9: every usage error, a wrong number of arguments or an argument that is not an
  integer, is detected before any computation, gives a message on the error stream and
  the exit code 1; the documentation of \<^verbatim>\<open>main\<close> says that it returns 1 whenever the
  program did not execute successfully. For the argument \<^verbatim>\<open>abc\<close> the code does not do
  that: \<^verbatim>\<open>std::stoi\<close> throws \<^verbatim>\<open>std::invalid_argument\<close>, no handler encloses the call, and
  the process is terminated. The program has written nothing to \<^verbatim>\<open>std::cerr\<close>, and
  \<^verbatim>\<open>main\<close> does not return 1.
\<close>

theorem malformed_argument_terminates:
  "main example_env ''prog'' [''abc''] ''3'' =
     Some (Terminated (Invalid_argument ''stoi''), start ''3'')"
  by (simp add: main_def stoi_def isspace_def isdigit_def)

end
